theory Spec2Isabelle
  imports Main "HOL-Library.AList"
begin

section \<open>Python values used by the analyzer\<close>

text \<open>
  Exceptions the Python code can raise. A function that can raise returns
  \<open>error + 'a\<close>, with \<open>Inl\<close> for the exception.
\<close>

datatype error = NameError | AttributeError | IndexError | KeyError | TypeError
  | ValueError | SyntaxError

text \<open>Class \<open>LiteralNum\<close>, the only subclass of \<open>LiteralValue\<close>.\<close>

datatype literal = LiteralNum int

text \<open>
  The \<open>definition\<close> attribute of a \<open>FunctionType\<close>. The constructor leaves it as
  given when it is not \<open>None\<close> (the string-method table passes the method name in
  that position), and otherwise builds one of four closures from \<open>returns\<close>; the
  fourth closure, taken for every \<open>returns\<close> other than the three keywords, reads
  the unbound name \<open>returnType\<close> and does not capture \<open>returns\<close>.
\<close>

datatype func_definition =
    NoDefinition
  | StrDefinition string
  | IdentityDef
  | ElementDef
  | VoidDef
  | ReturnTypeDef
  | SequenceCall string
  | AppendDef
  | ItemsDef
  | KeysDef

text \<open>
  The attribute \<open>values\<close> of a \<open>DictType\<close>: \<open>None\<close>, one type (with \<open>keys\<close>) or a
  list of types (with \<open>literals\<close>).
\<close>

datatype 'a dict_values = NoValues | ValuesType 'a | ValuesList "'a list"

text \<open>
  Instances of the subclasses of \<open>Type\<close>, with their attributes in the order of the
  constructors' parameters. A dictionary is an association list in insertion order.
\<close>

datatype ty =
    UnknownType
  | RecursedType
  | FunctionType func_definition string
  | NumType
  | NoneType
  | BoolType
  | TupleType "ty list"
  | ListType ty bool
  | StrType
  | FileType
  | DictType bool "literal list option" "ty dict_values" "ty option"
  | ModuleType string "(string \<times> ty) list" "(string \<times> ty) list"
  | SetType ty bool
  | GeneratorType ty bool
  | TimeType
  | DayType

text \<open>The classes themselves, as \<open>type(x)\<close> returns them and as table keys.\<close>

datatype cls =
    C_UnknownType | C_RecursedType | C_FunctionType | C_NumType | C_NoneType
  | C_BoolType | C_TupleType | C_ListType | C_StrType | C_FileType | C_DictType
  | C_ModuleType | C_SetType | C_GeneratorType | C_TimeType | C_DayType

fun type_of :: "ty \<Rightarrow> cls" where
  "type_of UnknownType = C_UnknownType"
| "type_of RecursedType = C_RecursedType"
| "type_of (FunctionType d n) = C_FunctionType"
| "type_of NumType = C_NumType"
| "type_of NoneType = C_NoneType"
| "type_of BoolType = C_BoolType"
| "type_of (TupleType ts) = C_TupleType"
| "type_of (ListType t e) = C_ListType"
| "type_of StrType = C_StrType"
| "type_of FileType = C_FileType"
| "type_of (DictType e l v k) = C_DictType"
| "type_of (ModuleType n s f) = C_ModuleType"
| "type_of (SetType t e) = C_SetType"
| "type_of (GeneratorType t e) = C_GeneratorType"
| "type_of TimeType = C_TimeType"
| "type_of DayType = C_DayType"

text \<open>
  What an expression of the analyzer can evaluate to: an instance of a \<open>Type\<close>
  class, a class object, a Python list of instances, or \<open>None\<close>.
\<close>

datatype pyval = Instance ty | ClassObj cls | TypeList "ty list" | NoneValue

subsection \<open>\<open>clone\<close>\<close>

text \<open>
  \<open>Type.clone\<close> returns \<open>self.__class__()\<close>, a new instance built with the
  constructor's defaults. \<open>TupleType\<close> and \<open>ListType\<close> override it; \<open>SetType\<close> and
  \<open>GeneratorType\<close> inherit the override of \<open>ListType\<close>, which builds a \<open>ListType\<close>.
\<close>

fun clone :: "ty \<Rightarrow> ty" where
  "clone (TupleType subtypes) = TupleType (map clone subtypes)"
| "clone (ListType t e) = ListType (clone t) e"
| "clone (SetType t e) = ListType (clone t) e"
| "clone (GeneratorType t e) = ListType (clone t) e"
| "clone (FunctionType d n) = FunctionType NoDefinition ''*Anonymous''"
| "clone (DictType e l v k) = DictType False None NoValues None"
| "clone (ModuleType n s f) = ModuleType ''*UnknownModule'' [] []"
| "clone t = t"

subsection \<open>\<open>are_types_equal\<close>\<close>

text \<open>
  \<open>isinstance(x, (GeneratorType, ListType))\<close>; \<open>SetType\<close> is a subclass of
  \<open>ListType\<close>.
\<close>

fun is_list_like :: "ty \<Rightarrow> bool" where
  "is_list_like (ListType t e) = True"
| "is_list_like (SetType t e) = True"
| "is_list_like (GeneratorType t e) = True"
| "is_list_like t = False"

fun subtype :: "ty \<Rightarrow> ty" where
  "subtype (ListType t e) = t"
| "subtype (SetType t e) = t"
| "subtype (GeneratorType t e) = t"
| "subtype t = UnknownType"

fun empty_attr :: "ty \<Rightarrow> bool" where
  "empty_attr (ListType t e) = e"
| "empty_attr (SetType t e) = e"
| "empty_attr (GeneratorType t e) = e"
| "empty_attr (DictType e l v k) = e"
| "empty_attr t = False"

text \<open>
  The loop \<open>for l, r in zip(ls, rs): if not are_types_equal(l, r): return False\<close>
  over the results of the calls, stopping at the first \<open>False\<close> or exception.
\<close>

fun all_equal :: "(error + bool) list \<Rightarrow> error + bool" where
  "all_equal [] = Inr True"
| "all_equal (Inl e # rs) = Inl e"
| "all_equal (Inr False # rs) = Inr False"
| "all_equal (Inr True # rs) = all_equal rs"

text \<open>
  \<open>are_types_equal(l, r)\<close> on two \<open>LiteralNum\<close> objects: neither is \<open>None\<close> nor an
  \<open>UnknownType\<close>, their classes agree, and no container branch applies, so the final
  \<open>else\<close> returns \<open>True\<close>.
\<close>

definition are_literals_types_equal :: "literal \<Rightarrow> literal \<Rightarrow> error + bool" where
  "are_literals_types_equal l r = Inr True"

text \<open>Size facts for the termination of \<open>are_types_equal\<close>.\<close>

lemma size_subtype: "is_list_like l \<Longrightarrow> size (subtype l) < size l"
  by (cases l) simp_all

lemma size_elem: "a \<in> set xs \<Longrightarrow> size (a::ty) < Suc (size_list size xs)"
  by (induction xs) auto

text \<open>
  \<open>are_types_equal(left, right)\<close>, with Python's \<open>None\<close> as \<open>None\<close>. A \<open>TupleType\<close>
  has no attribute \<open>empty\<close> (its constructor sets \<open>subtypes\<close> only), so the tuple
  branch raises at its first test. In the literal branch of dictionaries
  \<open>zip(left.values, right.values)\<close> raises unless both are lists. In the last
  branch \<open>keys\<close> and \<open>values\<close> are compared by the function itself: a list is not
  \<open>None\<close>, two lists have the same class and reach the final \<open>else\<close>, a list and an
  instance differ in class.
\<close>

function are_types_equal :: "ty option \<Rightarrow> ty option \<Rightarrow> error + bool" where
  "are_types_equal None right = Inr False"
| "are_types_equal (Some l) None = Inr False"
| "are_types_equal (Some l) (Some r) =
     (if l = UnknownType \<or> r = UnknownType then Inr False
      else if type_of l \<noteq> type_of r then Inr False
      else if is_list_like l then
        (if empty_attr l \<or> empty_attr r then Inr True
         else are_types_equal (Some (subtype l)) (Some (subtype r)))
      else (case (l, r) of
          (TupleType ls, TupleType rs) \<Rightarrow> Inl AttributeError
        | (DictType le ll lv lk, DictType re rl rv rk) \<Rightarrow>
            (if le \<or> re then Inr True
             else (case (ll, rl) of
                 (Some lls, Some rls) \<Rightarrow>
                   (if length lls \<noteq> length rls then Inr False
                    else (case all_equal (map (\<lambda>(a, b). are_literals_types_equal a b) (zip lls rls)) of
                        Inl e \<Rightarrow> Inl e
                      | Inr False \<Rightarrow> Inr False
                      | Inr True \<Rightarrow>
                          (case (lv, rv) of
                              (ValuesList lvs, ValuesList rvs) \<Rightarrow>
                                all_equal (map (\<lambda>(a, b). are_types_equal (Some a) (Some b)) (zip lvs rvs))
                            | _ \<Rightarrow> Inl TypeError)))
               | (Some lls, None) \<Rightarrow> Inr False
               | (None, Some rls) \<Rightarrow> Inr False
               | (None, None) \<Rightarrow>
                   (case are_types_equal lk rk of
                       Inl e \<Rightarrow> Inl e
                     | Inr keys_equal \<Rightarrow>
                         (case (case (lv, rv) of
                                   (NoValues, _) \<Rightarrow> Inr False
                                 | (_, NoValues) \<Rightarrow> Inr False
                                 | (ValuesType a, ValuesType b) \<Rightarrow> are_types_equal (Some a) (Some b)
                                 | (ValuesList as, ValuesList bs) \<Rightarrow> Inr True
                                 | (ValuesType a, ValuesList bs) \<Rightarrow> Inr False
                                 | (ValuesList as, ValuesType b) \<Rightarrow> Inr False) of
                             Inl e \<Rightarrow> Inl e
                           | Inr values_equal \<Rightarrow> Inr (keys_equal \<and> values_equal)))))
        | _ \<Rightarrow> Inr True))"
  by pat_completeness auto

termination
  apply (relation "measure (\<lambda>(l, r). case l of None \<Rightarrow> 0 | Some t \<Rightarrow> size t)")
  apply (auto simp: size_subtype split: option.splits dest!: set_zip_leftD size_elem)
  done

subsection \<open>\<open>merge_types\<close> and the operator tables\<close>

text \<open>
  \<open>merge_types(left, right)\<close>. Only a list, set or generator has the attribute
  \<open>subtype\<close> and only a tuple has \<open>subtypes\<close>; the function returns \<open>None\<close> when
  \<open>left\<close> is neither.
\<close>

definition merge_types :: "ty \<Rightarrow> ty \<Rightarrow> error + pyval" where
  "merge_types left right =
     (if is_list_like left then
        (if empty_attr left then
           (if is_list_like right then Inr (Instance (subtype right))
            else Inl AttributeError)
         else Inr (Instance (clone (subtype left))))
      else (case left of
          TupleType ls \<Rightarrow>
            (case right of
                TupleType rs \<Rightarrow> Inr (TypeList (ls @ rs))
              | _ \<Rightarrow> Inl AttributeError)
        | _ \<Rightarrow> Inr NoneValue))"

text \<open>
  \<open>NumType_any = lambda *x: NumType\<close> and its two siblings return the class, not
  an instance of it.
\<close>

definition NumType_any :: "ty \<Rightarrow> ty \<Rightarrow> error + pyval" where
  "NumType_any l r = Inr (ClassObj C_NumType)"

definition StrType_any :: "ty \<Rightarrow> ty \<Rightarrow> error + pyval" where
  "StrType_any l r = Inr (ClassObj C_StrType)"

definition BoolType_any :: "ty \<Rightarrow> ty \<Rightarrow> error + pyval" where
  "BoolType_any l r = Inr (ClassObj C_BoolType)"

text \<open>The two anonymous rules \<open>lambda l,r: r\<close> and \<open>lambda l,r: l\<close>.\<close>

definition right_operand :: "ty \<Rightarrow> ty \<Rightarrow> error + pyval" where
  "right_operand l r = Inr (Instance r)"

definition left_operand :: "ty \<Rightarrow> ty \<Rightarrow> error + pyval" where
  "left_operand l r = Inr (Instance l)"

text \<open>The classes of \<open>ast\<close> for binary and unary operators.\<close>

datatype operator = Add | Sub | Mult | MatMult | Div | Mod | Pow | LShift | RShift
  | BitOr | BitXor | BitAnd | FloorDiv

datatype unaryop = Invert | Not_op | UAdd | USub

definition VALID_BINOP_TYPES ::
  "(operator \<times> (cls \<times> (cls \<times> (ty \<Rightarrow> ty \<Rightarrow> error + pyval)) list) list) list" where
  "VALID_BINOP_TYPES =
    [(Add, [(C_NumType, [(C_NumType, NumType_any)]),
            (C_StrType, [(C_StrType, StrType_any)]),
            (C_ListType, [(C_ListType, merge_types)]),
            (C_TupleType, [(C_TupleType, merge_types)])]),
     (Sub, [(C_NumType, [(C_NumType, NumType_any)]),
            (C_SetType, [(C_SetType, merge_types)])]),
     (Div, [(C_NumType, [(C_NumType, NumType_any)])]),
     (FloorDiv, [(C_NumType, [(C_NumType, NumType_any)])]),
     (Mult, [(C_NumType, [(C_NumType, NumType_any),
                          (C_StrType, StrType_any),
                          (C_ListType, right_operand),
                          (C_TupleType, right_operand)]),
             (C_StrType, [(C_NumType, StrType_any)]),
             (C_ListType, [(C_NumType, left_operand)]),
             (C_TupleType, [(C_NumType, left_operand)])]),
     (Pow, [(C_NumType, [(C_NumType, NumType_any)])]),
     (Mod, [(C_NumType, [(C_NumType, NumType_any)])]),
     (LShift, [(C_NumType, [(C_NumType, NumType_any)])]),
     (RShift, [(C_NumType, [(C_NumType, NumType_any)])]),
     (BitOr, [(C_NumType, [(C_NumType, NumType_any)]),
              (C_BoolType, [(C_NumType, NumType_any),
                            (C_BoolType, BoolType_any)]),
              (C_SetType, [(C_SetType, merge_types)])]),
     (BitXor, [(C_NumType, [(C_NumType, NumType_any)]),
               (C_BoolType, [(C_NumType, NumType_any),
                             (C_BoolType, BoolType_any)]),
               (C_SetType, [(C_SetType, merge_types)])]),
     (BitAnd, [(C_NumType, [(C_NumType, NumType_any)]),
               (C_BoolType, [(C_NumType, NumType_any),
                             (C_BoolType, BoolType_any)]),
               (C_SetType, [(C_SetType, merge_types)])])]"

text \<open>
  The walk through the table that \<open>visit_BinOp\<close> and \<open>visit_AugAssign\<close> both make,
  \<open>type(node.op) in VALID_BINOP_TYPES\<close>, \<open>type(left) in op_lookup\<close>,
  \<open>type(right) in op_lookup\<close>, ending in the call \<open>op_lookup(left, right)\<close>. The
  result is \<open>None\<close> when a level has no entry. The class of a class object is
  \<open>type\<close> and the class of a list is \<open>list\<close>; neither is a key of the table.
\<close>

definition op_lookup :: "operator \<Rightarrow> pyval \<Rightarrow> pyval \<Rightarrow> (error + pyval) option" where
  "op_lookup op left right =
     (case (left, right) of
         (Instance l, Instance r) \<Rightarrow>
           (case map_of VALID_BINOP_TYPES op of
               None \<Rightarrow> None
             | Some by_left \<Rightarrow>
                 (case map_of by_left (type_of l) of
                     None \<Rightarrow> None
                   | Some by_right \<Rightarrow>
                       (case map_of by_right (type_of r) of
                           None \<Rightarrow> None
                         | Some rule \<Rightarrow> Some (rule l r))))
       | _ \<Rightarrow> None)"

section \<open>Strings\<close>

text \<open>\<open>str(i)\<close> for a Python integer: decimal digits, with a minus sign when negative.\<close>

definition digit_char :: "nat \<Rightarrow> char" where
  "digit_char d = ''0123456789'' ! d"

function str_nat :: "nat \<Rightarrow> string" where
  "str_nat n = (if n < 10 then [digit_char n] else str_nat (n div 10) @ [digit_char (n mod 10)])"
  by pat_completeness auto
termination
  by (relation "measure id") auto

declare str_nat.simps [simp del]

definition str_int :: "int \<Rightarrow> string" where
  "str_int i = (if i < 0 then CHR ''-'' # str_nat (nat (- i)) else str_nat (nat i))"

text \<open>\<open>sep.join(parts)\<close>.\<close>

fun join :: "string \<Rightarrow> string list \<Rightarrow> string" where
  "join sep [] = []"
| "join sep [x] = x"
| "join sep (x # y # ys) = x @ sep @ join sep (y # ys)"

text \<open>\<open>s.split(sep)\<close> for a separator of one character; the result is never empty.\<close>

fun split :: "char \<Rightarrow> string \<Rightarrow> string list" where
  "split sep [] = [[]]"
| "split sep (c # cs) =
     (if c = sep then [] # split sep cs
      else (case split sep cs of
          [] \<Rightarrow> [[c]]
        | w # ws \<Rightarrow> (c # w) # ws))"

text \<open>
  \<open>s.rsplit(sep, maxsplit=1)\<close>: the string cut at its last separator, or the
  string alone when it has none.
\<close>

definition rsplit1 :: "char \<Rightarrow> string \<Rightarrow> string list" where
  "rsplit1 sep s =
     (if sep \<in> set s
      then [rev (tl (dropWhile (\<lambda>c. c \<noteq> sep) (rev s))), rev (takeWhile (\<lambda>c. c \<noteq> sep) (rev s))]
      else [s])"

text \<open>
  \<open>==\<close> between a string and an integer is \<open>False\<close> in Python, and two lists are
  equal when they have the same length and equal elements.
\<close>

definition str_eq_int :: "string \<Rightarrow> int \<Rightarrow> bool" where
  "str_eq_int a b = False"

definition str_list_eq_int_list :: "string list \<Rightarrow> int list \<Rightarrow> bool" where
  "str_list_eq_int_list xs ys = list_all2 str_eq_int xs ys"

section \<open>Syntax trees\<close>

text \<open>
  A position is the pair \<open>col_offset\<close>, \<open>lineno\<close> of a node, in the order of the
  dictionary that \<open>locate\<close> builds.
\<close>

datatype position = Position int int

datatype expr_context = Load | Store | Del

text \<open>\<open>ast.alias\<close>: \<open>name\<close> and \<open>asname\<close>.\<close>

datatype import_alias = Alias string "string option"

text \<open>
  The node classes that the analyzer tells apart, with the fields it reads, and
  \<open>Other\<close> for every other class: its name, its position when it has one
  (modules, operators and contexts have none) and its child nodes in the order of
  \<open>ast.iter_fields\<close>.
\<close>

datatype ast =
    Name position string expr_context
  | Assign position "ast list" ast
  | AugAssign position ast operator ast
  | BinOp position ast operator ast
  | UnaryOp position unaryop ast
  | Import position "import_alias list"
  | ImportFrom position "string option" "import_alias list"
  | Tuple position "ast list" expr_context
  | List position "ast list" expr_context
  | Subscript position ast ast expr_context
  | Attribute position ast string expr_context
  | Call position ast "ast list" "ast list"
  | Other string "position option" "ast list"

fun node_position :: "ast \<Rightarrow> position option" where
  "node_position (Name p n c) = Some p"
| "node_position (Assign p ts v) = Some p"
| "node_position (AugAssign p t oper v) = Some p"
| "node_position (BinOp p l oper r) = Some p"
| "node_position (UnaryOp p oper v) = Some p"
| "node_position (Import p ns) = Some p"
| "node_position (ImportFrom p m ns) = Some p"
| "node_position (Tuple p es c) = Some p"
| "node_position (List p es c) = Some p"
| "node_position (Subscript p v i c) = Some p"
| "node_position (Attribute p v a c) = Some p"
| "node_position (Call p f as ks) = Some p"
| "node_position (Other n p cs) = p"

section \<open>The state store\<close>

text \<open>
  Class \<open>State\<close>. A name is a string, or \<open>None\<close> when \<open>identify_caller\<close> found
  none. The flags \<open>read\<close>, \<open>set\<close> and \<open>over\<close> are the strings \<open>yes\<close>, \<open>no\<close> and
  \<open>maybe\<close>.
\<close>

datatype state = State
  (state_name: "string option")
  (state_trace: "state list")
  (state_type: pyval)
  (state_method: string)
  (state_position: position)
  (state_read: string)
  (state_set: string)
  (state_over: string)
  (state_over_position: "position option")

text \<open>
  Class \<open>Identifier\<close>. The default of its attribute \<open>state\<close>, the empty string, is
  \<open>None\<close> here.
\<close>

datatype ident = Identifier
  (ident_exists: bool)
  (ident_in_scope: bool)
  (ident_scoped_name: string)
  (ident_state: "state option")

text \<open>Values stored in the dictionary of an issue.\<close>

datatype pyobj = Str string | NoneObj | Pos position | Val pyval

type_synonym issue = "(string \<times> pyobj) list"

type_synonym names = "(int \<times> (string \<times> state) list) list"

text \<open>
  The report dictionary. The keys \<open>error\<close> and \<open>top_level_variables\<close> are absent
  from some reports.
\<close>

record report =
  success :: bool
  error_payload :: "error option"
  issues :: "(string \<times> issue list) list"
  variables :: names
  top_level_variables :: "(string \<times> state) list option"

text \<open>The attributes of a \<open>Tifa\<close> object.\<close>

record tifa =
  source :: "string list"
  report :: report
  path_id :: int
  scope_id :: int
  ast_id :: int
  path_names :: "string list"
  scope_names :: "string list"
  node_chain :: "ast list"
  scope_chain :: "int list"
  path_chain :: "int list"
  name_map :: names
  definition_chain :: "ast list"
  path_parents :: "(int \<times> int) list"

text \<open>
  A method that can raise returns the exception or its value, each with the
  object as the method leaves it.
\<close>

type_synonym 'a result = "(error \<times> tifa) + ('a \<times> tifa)"

definition error_report :: "error \<Rightarrow> report" where
  "error_report err =
     \<lparr>success = False, error_payload = Some err, issues = [], variables = [],
      top_level_variables = None\<rparr>"

definition initialize_report :: report where
  "initialize_report =
     \<lparr>success = True, error_payload = None,
      issues = map (\<lambda>kind. (kind, []))
        [''Parser Failure'', ''Unconnected blocks'', ''Empty Body'',
         ''Malformed Conditional'', ''Unnecessary Pass'', ''Unread variables'',
         ''Undefined variables'', ''Possibly undefined variables'',
         ''Overwritten variables'', ''Append to non-list'', ''Used iteration list'',
         ''Unused iteration variable'', ''Non-list iterations'', ''Empty iterations'',
         ''Type changes'', ''Iteration variable is iteration list'',
         ''Unknown functions'', ''Not a function'', ''Recursive Call'',
         ''Incorrect Arity'', ''Action after return'', ''Incompatible types'',
         ''Return outside function'', ''Read out of scope'', ''Write out of scope'',
         ''Aliased built-in'', ''Method not in Type'', ''Submodule not found'',
         ''Module not found''],
      variables = [],
      top_level_variables = None\<rparr>"

definition reset :: "tifa \<Rightarrow> tifa" where
  "reset self =
     self\<lparr>path_id := 0, scope_id := 0, ast_id := 0,
          path_names := [''*Module''], scope_names := [''*Module''],
          node_chain := [],
          scope_chain := [0], path_chain := [0],
          name_map := [(0, [])],
          definition_chain := [], path_parents := []\<rparr>"

text \<open>\<open>d[k]\<close> on a dictionary.\<close>

definition getitem :: "('k \<times> 'v) list \<Rightarrow> 'k \<Rightarrow> error + 'v" where
  "getitem d k = (case map_of d k of None \<Rightarrow> Inl KeyError | Some v \<Rightarrow> Inr v)"

definition locate :: "tifa \<Rightarrow> error + position" where
  "locate self =
     (case node_chain self of
         [] \<Rightarrow> Inl IndexError
       | n # ns \<Rightarrow>
           (case node_position (last (n # ns)) of
               None \<Rightarrow> Inl AttributeError
             | Some p \<Rightarrow> Inr p))"

definition report_issue :: "tifa \<Rightarrow> string \<Rightarrow> issue \<Rightarrow> unit result" where
  "report_issue self kind data =
     (case (if map_of data ''position'' \<noteq> None then Inr data
            else (case locate self of
                Inl e \<Rightarrow> Inl e
              | Inr p \<Rightarrow> Inr (data @ [(''position'', Pos p)]))) of
         Inl e \<Rightarrow> Inl (e, self)
       | Inr data' \<Rightarrow>
           (case map_of (issues (report self)) kind of
               None \<Rightarrow> Inl (KeyError, self)
             | Some records \<Rightarrow>
                 Inr ((), self\<lparr>report := (report self)
                        \<lparr>issues := AList.update kind (records @ [data']) (issues (report self))\<rparr>\<rparr>)))"

definition scope_chain_str :: "tifa \<Rightarrow> string option \<Rightarrow> string" where
  "scope_chain_str self name =
     (case name of
         None \<Rightarrow> join ''/'' (map str_int (scope_chain self))
       | Some n \<Rightarrow>
           (if n \<noteq> [] then join ''/'' (map str_int (scope_chain self)) @ ''/'' @ n
            else join ''/'' (map str_int (scope_chain self))))"

text \<open>
  \<open>find_variable_scope\<close>: the inner loop over the open paths for one
  \<open>scope_index\<close>, then the outer loop over the indices of the scope chain. Adding
  \<open>None\<close> to a string raises.
\<close>

fun find_in_paths :: "tifa \<Rightarrow> nat \<Rightarrow> string option \<Rightarrow> int list \<Rightarrow> error + ident option" where
  "find_in_paths self scope_index name [] = Inr None"
| "find_in_paths self scope_index name (pid # rest) =
     (case getitem (name_map self) pid of
         Inl e \<Rightarrow> Inl e
       | Inr path \<Rightarrow>
           (case name of
               None \<Rightarrow> Inl TypeError
             | Some n \<Rightarrow>
                 (let full_name =
                        join ''/'' (map str_int (take scope_index (scope_chain self))) @ ''/'' @ n
                  in (case map_of path full_name of
                      Some st \<Rightarrow> Inr (Some (Identifier True (scope_index = 0) full_name (Some st)))
                    | None \<Rightarrow> find_in_paths self scope_index name rest))))"

fun find_in_scopes :: "tifa \<Rightarrow> string option \<Rightarrow> nat list \<Rightarrow> error + ident" where
  "find_in_scopes self name [] = Inr (Identifier False False ''UNKNOWN'' None)"
| "find_in_scopes self name (scope_index # rest) =
     (case find_in_paths self scope_index name (path_chain self) of
         Inl e \<Rightarrow> Inl e
       | Inr (Some found) \<Rightarrow> Inr found
       | Inr None \<Rightarrow> find_in_scopes self name rest)"

definition find_variable_scope :: "tifa \<Rightarrow> string option \<Rightarrow> error + ident" where
  "find_variable_scope self name =
     find_in_scopes self name [0 ..< length (scope_chain self)]"

text \<open>\<open>find_variable_out_of_scope\<close>: every entry of every path, in order.\<close>

fun find_unscoped :: "string option \<Rightarrow> (string \<times> state) list \<Rightarrow> (string \<times> state) list \<Rightarrow> ident option" where
  "find_unscoped name path [] = None"
| "find_unscoped name path ((full_name, st) # rest) =
     (let unscoped_name = last (rsplit1 CHR ''/'' full_name)
      in if name = Some unscoped_name
         then Some (Identifier True False unscoped_name (map_of path full_name))
         else find_unscoped name path rest)"

fun find_out_of_scope :: "string option \<Rightarrow> names \<Rightarrow> ident" where
  "find_out_of_scope name [] = Identifier False False ''UNKNOWN'' None"
| "find_out_of_scope name ((pid, path) # rest) =
     (case find_unscoped name path path of
         Some found \<Rightarrow> found
       | None \<Rightarrow> find_out_of_scope name rest)"

definition find_variable_out_of_scope :: "tifa \<Rightarrow> string option \<Rightarrow> ident" where
  "find_variable_out_of_scope self name = find_out_of_scope name (name_map self)"

text \<open>
  \<open>Tifa.in_scope\<close>: the scopes of the name are strings, the reversed scope chain
  is a list of integers.
\<close>

definition in_scope :: "string \<Rightarrow> int list \<Rightarrow> bool" where
  "in_scope full_name chain =
     (let name_scopes = butlast (split CHR ''/'' full_name);
          checking_scopes = rev chain
      in str_list_eq_int_list name_scopes checking_scopes)"

text \<open>
  \<open>are_types_equal\<close> on the values an expression can have. A class object or a
  list is neither \<open>None\<close> nor an instance of \<open>UnknownType\<close>; its class is \<open>type\<close>
  or \<open>list\<close>, which equals the class of the other argument only when that is a
  class object or a list too, and then the final \<open>else\<close> returns \<open>True\<close>. With
  \<open>None\<close> on either side the first test returns \<open>False\<close>.
\<close>

definition are_values_equal :: "pyval \<Rightarrow> pyval \<Rightarrow> error + bool" where
  "are_values_equal left right =
     (case (left, right) of
         (Instance l, Instance r) \<Rightarrow> are_types_equal (Some l) (Some r)
       | (ClassObj a, ClassObj b) \<Rightarrow> Inr True
       | (TypeList as, TypeList bs) \<Rightarrow> Inr True
       | _ \<Rightarrow> Inr False)"

text \<open>
  \<open>State.copy\<close> builds the new \<open>State\<close> from \<open>state.read\<close>, \<open>state.set\<close>,
  \<open>state.over\<close> and \<open>state.over_position\<close>; no name \<open>state\<close> is bound in the
  method or in the module, so the call raises.
\<close>

definition copy :: "state \<Rightarrow> string \<Rightarrow> position \<Rightarrow> error + state" where
  "copy st method pos = Inl NameError"

definition trace_state :: "tifa \<Rightarrow> state \<Rightarrow> string \<Rightarrow> error + state" where
  "trace_state self st method =
     (case locate self of
         Inl e \<Rightarrow> Inl e
       | Inr p \<Rightarrow> copy st method p)"

definition name_obj :: "string option \<Rightarrow> pyobj" where
  "name_obj name = (case name of None \<Rightarrow> NoneObj | Some n \<Rightarrow> Str n)"

text \<open>\<open>self.name_map[current_path][full_name] = new_state\<close>.\<close>

definition set_name :: "tifa \<Rightarrow> int \<Rightarrow> string \<Rightarrow> state \<Rightarrow> unit result" where
  "set_name self current_path full_name new_state =
     (case getitem (name_map self) current_path of
         Inl e \<Rightarrow> Inl (e, self)
       | Inr path \<Rightarrow>
           Inr ((), self\<lparr>name_map :=
                  AList.update current_path (AList.update full_name new_state path) (name_map self)\<rparr>))"

text \<open>
  The \<open>else\<close> branch of \<open>store_variable\<close>, for a variable that exists. The name
  \<open>position\<close> is not bound where the branch for an overwritten variable reads it.
\<close>

definition store_existing ::
  "tifa \<Rightarrow> string option \<Rightarrow> pyval \<Rightarrow> string \<Rightarrow> int \<Rightarrow> ident \<Rightarrow> state result" where
  "store_existing self name typ full_name current_path variable =
     (case ident_state variable of
         None \<Rightarrow> Inl (AttributeError, self)
       | Some old \<Rightarrow>
     (case trace_state self old ''store'' of
         Inl e \<Rightarrow> Inl (e, self)
       | Inr new_state \<Rightarrow>
     (case (if \<not> ident_in_scope variable
            then report_issue self ''Write out of scope'' [(''name'', name_obj name)]
            else Inr ((), self)) of
         Inl failed \<Rightarrow> Inl failed
       | Inr (u, self1) \<Rightarrow>
     (case are_values_equal typ (state_type old) of
         Inl e \<Rightarrow> Inl (e, self1)
       | Inr equal \<Rightarrow>
     (case (if \<not> equal
            then report_issue self1 ''Type changes''
                   [(''name'', name_obj name), (''old'', Val (state_type old)), (''new'', Val typ)]
            else Inr ((), self1)) of
         Inl failed \<Rightarrow> Inl failed
       | Inr (u, self2) \<Rightarrow>
           (if state_set old = ''yes'' \<and> state_read old = ''no''
            then Inl (NameError, self2)
            else (let new_state' =
                        State (state_name new_state) (state_trace new_state) typ
                          (state_method new_state) (state_position new_state)
                          ''no'' ''yes'' (state_over new_state) (state_over_position new_state)
                  in (case set_name self2 current_path full_name new_state' of
                      Inl failed \<Rightarrow> Inl failed
                    | Inr (u, self3) \<Rightarrow> Inr (new_state', self3)))))))))"

definition store_variable :: "tifa \<Rightarrow> string option \<Rightarrow> pyval \<Rightarrow> state result" where
  "store_variable self name typ =
     (let full_name = scope_chain_str self name
      in (case path_chain self of
          [] \<Rightarrow> Inl (IndexError, self)
        | current_path # others \<Rightarrow>
            (case find_variable_scope self name of
                Inl e \<Rightarrow> Inl (e, self)
              | Inr variable \<Rightarrow>
                  (if \<not> ident_exists variable then
                     (case locate self of
                         Inl e \<Rightarrow> Inl (e, self)
                       | Inr p \<Rightarrow>
                           (let new_state = State name [] typ ''store'' p ''no'' ''yes'' ''no'' None
                            in (case set_name self current_path full_name new_state of
                                Inl failed \<Rightarrow> Inl failed
                              | Inr (u, self1) \<Rightarrow> Inr (new_state, self1))))
                   else store_existing self name typ full_name current_path variable))))"

text \<open>
  The \<open>else\<close> branch of \<open>load_variable\<close>. Its last assignment reads the unbound
  name \<open>newState\<close>.
\<close>

definition load_existing ::
  "tifa \<Rightarrow> string option \<Rightarrow> string \<Rightarrow> int \<Rightarrow> ident \<Rightarrow> state result" where
  "load_existing self name full_name current_path variable =
     (case ident_state variable of
         None \<Rightarrow> Inl (AttributeError, self)
       | Some old \<Rightarrow>
     (case trace_state self old ''load'' of
         Inl e \<Rightarrow> Inl (e, self)
       | Inr new_state \<Rightarrow>
     (case (if state_set old = ''no''
            then report_issue self ''Undefined variables'' [(''name'', name_obj name)]
            else Inr ((), self)) of
         Inl failed \<Rightarrow> Inl failed
       | Inr (u, self1) \<Rightarrow>
     (case (if state_set old = ''maybe''
            then report_issue self1 ''Possibly undefined variables'' [(''name'', name_obj name)]
            else Inr ((), self1)) of
         Inl failed \<Rightarrow> Inl failed
       | Inr (u, self2) \<Rightarrow>
           (let new_state' =
                  State (state_name new_state) (state_trace new_state) (state_type new_state)
                    (state_method new_state) (state_position new_state)
                    ''yes'' (state_set new_state) (state_over new_state)
                    (state_over_position new_state)
            in (if \<not> ident_in_scope variable then
                  (case set_name self2 current_path (ident_scoped_name variable) new_state' of
                      Inl failed \<Rightarrow> Inl failed
                    | Inr (u, self3) \<Rightarrow> Inr (new_state', self3))
                else Inl (NameError, self2)))))))"

definition load_variable :: "tifa \<Rightarrow> string option \<Rightarrow> state result" where
  "load_variable self name =
     (let full_name = scope_chain_str self name
      in (case path_chain self of
          [] \<Rightarrow> Inl (IndexError, self)
        | current_path # others \<Rightarrow>
            (case find_variable_scope self name of
                Inl e \<Rightarrow> Inl (e, self)
              | Inr variable \<Rightarrow>
                  (if \<not> ident_exists variable then
                     (let out_of_scope_var = find_variable_out_of_scope self name
                      in (case report_issue self
                                 (if ident_exists out_of_scope_var then ''Read out of scope''
                                  else ''Undefined variables'')
                                 [(''name'', name_obj name)] of
                          Inl failed \<Rightarrow> Inl failed
                        | Inr (u, self1) \<Rightarrow>
                            (case locate self1 of
                                Inl e \<Rightarrow> Inl (e, self1)
                              | Inr p \<Rightarrow>
                                  (let new_state =
                                         State name [] (Instance UnknownType) ''load'' p
                                           ''yes'' ''no'' ''no'' None
                                   in (case set_name self1 current_path full_name new_state of
                                       Inl failed \<Rightarrow> Inl failed
                                     | Inr (u, self2) \<Rightarrow> Inr (new_state, self2))))))
                   else load_existing self name full_name current_path variable))))"

text \<open>
  \<open>_finish_scope\<close>: one pass over the names recorded on the first open path.
\<close>

fun finish_names :: "tifa \<Rightarrow> int \<Rightarrow> string list \<Rightarrow> unit result" where
  "finish_names self pid [] = Inr ((), self)"
| "finish_names self pid (name # rest) =
     (if in_scope name (scope_chain self) then
        (case getitem (name_map self) pid of
            Inl e \<Rightarrow> Inl (e, self)
          | Inr path \<Rightarrow>
        (case getitem path name of
            Inl e \<Rightarrow> Inl (e, self)
          | Inr st \<Rightarrow>
        (case (if state_over st = ''yes''
               then report_issue self ''Overwritten variables''
                      [(''name'', name_obj (state_name st)),
                       (''position'', (case state_over_position st of
                                          None \<Rightarrow> NoneObj
                                        | Some p \<Rightarrow> Pos p))]
               else Inr ((), self)) of
            Inl failed \<Rightarrow> Inl failed
          | Inr (u, self1) \<Rightarrow>
        (case (if state_read st = ''no''
               then report_issue self1 ''Unread variables''
                      [(''name'', name_obj (state_name st)), (''type'', Val (state_type st))]
               else Inr ((), self1)) of
            Inl failed \<Rightarrow> Inl failed
          | Inr (u, self2) \<Rightarrow> finish_names self2 pid rest))))
      else finish_names self pid rest)"

definition finish_scope :: "tifa \<Rightarrow> unit result" where
  "finish_scope self =
     (case path_chain self of
         [] \<Rightarrow> Inl (IndexError, self)
       | pid # others \<Rightarrow>
           (case getitem (name_map self) pid of
               Inl e \<Rightarrow> Inl (e, self)
             | Inr path \<Rightarrow> finish_names self pid (map fst path)))"

section \<open>The module registry\<close>

text \<open>
  The dictionary \<open>MODULES\<close>. Every function in it is built with \<open>returns\<close> set to an
  instance, hence with the fourth closure as its definition. The key \<open>acos\<close>,
  written twice with the same value, is one entry.
\<close>

definition MODULES :: "(string \<times> ty) list" where
  "MODULES =
    [(''matplotlib'',
      ModuleType ''matplotlib'' [(''pyplot'', ModuleType ''pyplot'' [] [(''plot'', FunctionType ReturnTypeDef ''plot''),
        (''hist'', FunctionType ReturnTypeDef ''hist''),
        (''scatter'', FunctionType ReturnTypeDef ''scatter''),
        (''show'', FunctionType ReturnTypeDef ''show''),
        (''xlabel'', FunctionType ReturnTypeDef ''xlabel''),
        (''ylabel'', FunctionType ReturnTypeDef ''ylabel''),
        (''title'', FunctionType ReturnTypeDef ''title'')])] []),
     (''pprint'',
      ModuleType ''pprint'' [] [(''pprint'', FunctionType ReturnTypeDef ''pprint'')]),
     (''random'',
      ModuleType ''random'' [] [(''randint'', FunctionType ReturnTypeDef ''randint'')]),
     (''turtle'',
      ModuleType ''turtle'' [] [(''forward'', FunctionType ReturnTypeDef ''forward''),
        (''backward'', FunctionType ReturnTypeDef ''backward''),
        (''color'', FunctionType ReturnTypeDef ''color''),
        (''right'', FunctionType ReturnTypeDef ''right''),
        (''left'', FunctionType ReturnTypeDef ''left'')]),
     (''parking'',
      ModuleType ''parking'' [] [(''Time'', FunctionType ReturnTypeDef ''Time''),
        (''now'', FunctionType ReturnTypeDef ''now''),
        (''Day'', FunctionType ReturnTypeDef ''Day''),
        (''today'', FunctionType ReturnTypeDef ''today'')]),
     (''math'',
      ModuleType ''math'' [] [(''ceil'', FunctionType ReturnTypeDef ''ceil''),
        (''copysign'', FunctionType ReturnTypeDef ''copysign''),
        (''fabs'', FunctionType ReturnTypeDef ''fabs''),
        (''factorial'', FunctionType ReturnTypeDef ''factorial''),
        (''floor'', FunctionType ReturnTypeDef ''floor''),
        (''fmod'', FunctionType ReturnTypeDef ''fmod''),
        (''frexp'', FunctionType ReturnTypeDef ''frexp''),
        (''fsum'', FunctionType ReturnTypeDef ''fsum''),
        (''gcd'', FunctionType ReturnTypeDef ''gcd''),
        (''isclose'', FunctionType ReturnTypeDef ''isclose''),
        (''isfinite'', FunctionType ReturnTypeDef ''isfinite''),
        (''isinf'', FunctionType ReturnTypeDef ''isinf''),
        (''isnan'', FunctionType ReturnTypeDef ''isnan''),
        (''ldexp'', FunctionType ReturnTypeDef ''ldexp''),
        (''modf'', FunctionType ReturnTypeDef ''modf''),
        (''trunc'', FunctionType ReturnTypeDef ''trunc''),
        (''log'', FunctionType ReturnTypeDef ''log''),
        (''log1p'', FunctionType ReturnTypeDef ''log1p''),
        (''log2'', FunctionType ReturnTypeDef ''log2''),
        (''log10'', FunctionType ReturnTypeDef ''log10''),
        (''pow'', FunctionType ReturnTypeDef ''pow''),
        (''sqrt'', FunctionType ReturnTypeDef ''sqrt''),
        (''acos'', FunctionType ReturnTypeDef ''acos''),
        (''sin'', FunctionType ReturnTypeDef ''sin''),
        (''cos'', FunctionType ReturnTypeDef ''cos''),
        (''tan'', FunctionType ReturnTypeDef ''tan''),
        (''asin'', FunctionType ReturnTypeDef ''asin''),
        (''atan'', FunctionType ReturnTypeDef ''atan''),
        (''atan2'', FunctionType ReturnTypeDef ''atan2''),
        (''hypot'', FunctionType ReturnTypeDef ''hypot''),
        (''degrees'', FunctionType ReturnTypeDef ''degrees''),
        (''radians'', FunctionType ReturnTypeDef ''radians''),
        (''sinh'', FunctionType ReturnTypeDef ''sinh''),
        (''cosh'', FunctionType ReturnTypeDef ''cosh''),
        (''tanh'', FunctionType ReturnTypeDef ''tanh''),
        (''asinh'', FunctionType ReturnTypeDef ''asinh''),
        (''acosh'', FunctionType ReturnTypeDef ''acosh''),
        (''atanh'', FunctionType ReturnTypeDef ''atanh''),
        (''erf'', FunctionType ReturnTypeDef ''erf''),
        (''erfc'', FunctionType ReturnTypeDef ''erfc''),
        (''gamma'', FunctionType ReturnTypeDef ''gamma''),
        (''lgamma'', FunctionType ReturnTypeDef ''lgamma''),
        (''pi'', NumType),
        (''e'', NumType),
        (''tau'', NumType),
        (''inf'', NumType),
        (''nan'', NumType)])]"

text \<open>
  \<open>load_module\<close>: the loop runs over every name of the dotted path, the first one
  included.
\<close>

fun load_submodules :: "tifa \<Rightarrow> string \<Rightarrow> ty \<Rightarrow> string list \<Rightarrow> ty result" where
  "load_submodules self chain base_module [] = Inr (base_module, self)"
| "load_submodules self chain base_module (m # rest) =
     (case (case base_module of
               ModuleType n submodules attrs \<Rightarrow> map_of submodules m
             | _ \<Rightarrow> None) of
         Some submodule \<Rightarrow> load_submodules self chain submodule rest
       | None \<Rightarrow>
           (case report_issue self ''Submodule not found'' [(''name'', Str chain)] of
               Inl failed \<Rightarrow> Inl failed
             | Inr (u, self1) \<Rightarrow> load_submodules self1 chain base_module rest))"

definition load_module :: "tifa \<Rightarrow> string \<Rightarrow> ty result" where
  "load_module self chain =
     (case split CHR ''.'' chain of
         [] \<Rightarrow> Inl (IndexError, self)
       | first # others \<Rightarrow>
           (case map_of MODULES first of
               Some base_module \<Rightarrow> load_submodules self chain base_module (first # others)
             | None \<Rightarrow>
                 (case report_issue self ''Module not found'' [(''name'', Str chain)] of
                     Inl failed \<Rightarrow> Inl failed
                   | Inr (u, self1) \<Rightarrow> Inr (ModuleType ''*UnknownModule'' [] [], self1))))"

section \<open>Attributes and subscripts of types\<close>

text \<open>
  The class attribute \<open>fields\<close> of \<open>StrType\<close> and of \<open>FileType\<close>. Each entry passes
  the method name as the first positional argument of \<open>FunctionType\<close>, which is
  \<open>definition\<close>; the name stays the default.
\<close>

definition StrType_fields :: "(string \<times> ty) list" where
  "StrType_fields =
    [(''capitalize'', FunctionType (StrDefinition ''capitalize'') ''*Anonymous''),
     (''center'', FunctionType (StrDefinition ''center'') ''*Anonymous''),
     (''expandtabs'', FunctionType (StrDefinition ''expandtabs'') ''*Anonymous''),
     (''join'', FunctionType (StrDefinition ''join'') ''*Anonymous''),
     (''ljust'', FunctionType (StrDefinition ''ljust'') ''*Anonymous''),
     (''lower'', FunctionType (StrDefinition ''lower'') ''*Anonymous''),
     (''lstrip'', FunctionType (StrDefinition ''lstrip'') ''*Anonymous''),
     (''replace'', FunctionType (StrDefinition ''replace'') ''*Anonymous''),
     (''rjust'', FunctionType (StrDefinition ''rjust'') ''*Anonymous''),
     (''rstrip'', FunctionType (StrDefinition ''rstrip'') ''*Anonymous''),
     (''strip'', FunctionType (StrDefinition ''strip'') ''*Anonymous''),
     (''swapcase'', FunctionType (StrDefinition ''swapcase'') ''*Anonymous''),
     (''title'', FunctionType (StrDefinition ''title'') ''*Anonymous''),
     (''translate'', FunctionType (StrDefinition ''translate'') ''*Anonymous''),
     (''upper'', FunctionType (StrDefinition ''upper'') ''*Anonymous''),
     (''zfill'', FunctionType (StrDefinition ''zfill'') ''*Anonymous''),
     (''count'', FunctionType (StrDefinition ''count'') ''*Anonymous''),
     (''find'', FunctionType (StrDefinition ''find'') ''*Anonymous''),
     (''rfind'', FunctionType (StrDefinition ''rfind'') ''*Anonymous''),
     (''index'', FunctionType (StrDefinition ''index'') ''*Anonymous''),
     (''rindex'', FunctionType (StrDefinition ''rindex'') ''*Anonymous''),
     (''startswith'', FunctionType (StrDefinition ''startswith'') ''*Anonymous''),
     (''endswith'', FunctionType (StrDefinition ''endswith'') ''*Anonymous''),
     (''isalnum'', FunctionType (StrDefinition ''isalnum'') ''*Anonymous''),
     (''isalpha'', FunctionType (StrDefinition ''isalpha'') ''*Anonymous''),
     (''isdigit'', FunctionType (StrDefinition ''isdigit'') ''*Anonymous''),
     (''islower'', FunctionType (StrDefinition ''islower'') ''*Anonymous''),
     (''isspace'', FunctionType (StrDefinition ''isspace'') ''*Anonymous''),
     (''istitle'', FunctionType (StrDefinition ''istitle'') ''*Anonymous''),
     (''isupper'', FunctionType (StrDefinition ''isupper'') ''*Anonymous''),
     (''rsplit'', FunctionType (StrDefinition ''rsplit'') ''*Anonymous''),
     (''split'', FunctionType (StrDefinition ''split'') ''*Anonymous''),
     (''splitlines'', FunctionType (StrDefinition ''splitlines'') ''*Anonymous'')]"

definition FileType_fields :: "(string \<times> ty) list" where
  "FileType_fields =
    [(''close'', FunctionType (StrDefinition ''close'') ''*Anonymous''),
     (''read'', FunctionType (StrDefinition ''read'') ''*Anonymous''),
     (''readlines'', FunctionType (StrDefinition ''readlines'') ''*Anonymous'')]"

text \<open>
  \<open>Type.load_attr\<close>: the attribute \<open>fields\<close> is the class attribute, empty except for
  \<open>StrType\<close> and \<open>FileType\<close>, or the instance attribute of a \<open>ModuleType\<close>. For
  \<open>append\<close> the method builds the payload of its issue first, and
  \<open>tifa.identifyCaller\<close> is not an attribute of \<open>Tifa\<close>.
\<close>

fun fields_of :: "ty \<Rightarrow> (string \<times> ty) list" where
  "fields_of StrType = StrType_fields"
| "fields_of FileType = FileType_fields"
| "fields_of (ModuleType n submodules attrs) = attrs"
| "fields_of t = []"

definition Type_load_attr :: "ty \<Rightarrow> string \<Rightarrow> error + ty" where
  "Type_load_attr t attr =
     (case map_of (fields_of t) attr of
         Some found \<Rightarrow> Inr found
       | None \<Rightarrow> (if attr = ''append'' then Inl AttributeError else Inr UnknownType))"

text \<open>
  \<open>load_attr\<close> with the overrides of \<open>ListType\<close> (inherited by sets and
  generators) and of \<open>DictType\<close>, whose branch for \<open>values\<close> names a function
  \<open>_values\<close> that is not defined.
\<close>

definition load_attr :: "ty \<Rightarrow> string \<Rightarrow> error + ty" where
  "load_attr t attr =
     (if is_list_like t then
        (if attr = ''append'' then Inr (FunctionType AppendDef ''append'')
         else Type_load_attr t attr)
      else (case t of
          DictType e l v k \<Rightarrow>
            (if attr = ''items'' then Inr (FunctionType ItemsDef ''items'')
             else if attr = ''keys'' then Inr (FunctionType KeysDef ''keys'')
             else if attr = ''values'' then Inl NameError
             else Type_load_attr t attr)
        | _ \<Rightarrow> Type_load_attr t attr))"

text \<open>\<open>xs[i]\<close> on a Python list: a negative index counts from the end.\<close>

definition list_getitem :: "'a list \<Rightarrow> int \<Rightarrow> error + 'a" where
  "list_getitem xs i =
     (let n = int (length xs); j = (if i < 0 then i + n else i)
      in if 0 \<le> j \<and> j < n then Inr (xs ! nat j) else Inl IndexError)"

text \<open>
  \<open>index(i)\<close> with a \<open>LiteralNum\<close> as argument. For a dictionary with literal
  keys, \<open>zip\<close> raises unless \<open>values\<close> is a list, and the first round of the loop
  calls \<open>Tifa.are_literals_equal\<close>, which does not exist; without literal keys the
  method clones \<open>keys\<close>, which may be \<open>None\<close>.
\<close>

fun index :: "ty \<Rightarrow> literal \<Rightarrow> error + ty" where
  "index (TupleType subtypes) (LiteralNum i) =
     (case list_getitem subtypes i of
         Inl e \<Rightarrow> Inl e
       | Inr t \<Rightarrow> Inr (clone t))"
| "index (ListType t e) i = Inr (clone t)"
| "index (SetType t e) i = Inr (clone t)"
| "index (GeneratorType t e) i = Inr (clone t)"
| "index StrType i = Inr StrType"
| "index FileType i = Inr StrType"
| "index (DictType e literals vals keys) i =
     (case literals of
         Some ls \<Rightarrow>
           (case vals of
               ValuesList vs \<Rightarrow> (if zip ls vs = [] then Inr UnknownType else Inl AttributeError)
             | _ \<Rightarrow> Inl TypeError)
       | None \<Rightarrow>
           (case keys of
               None \<Rightarrow> Inl AttributeError
             | Some k \<Rightarrow> Inr (clone k)))"
| "index t i = Inr (clone t)"

text \<open>
  \<open>type.index(LiteralNum(i))\<close> on any value an expression can have: on a class
  object the call lacks an argument, on a Python list it is \<open>list.index\<close> and the
  literal is not an element, and \<open>None\<close> has no such attribute.
\<close>

definition index_value :: "pyval \<Rightarrow> literal \<Rightarrow> error + pyval" where
  "index_value v i =
     (case v of
         Instance t \<Rightarrow> (case index t i of Inl e \<Rightarrow> Inl e | Inr r \<Rightarrow> Inr (Instance r))
       | ClassObj c \<Rightarrow> Inl TypeError
       | TypeList ts \<Rightarrow> Inl ValueError
       | NoneValue \<Rightarrow> Inl AttributeError)"

section \<open>The visitor\<close>

text \<open>
  The dictionary \<open>BUILTINS\<close>. The key \<open>list\<close> is written twice; the second value,
  the constructor for \<open>SetType\<close>, replaces the first.
\<close>

definition BUILTINS :: "(string \<times> ty) list" where
  "BUILTINS =
    [(''print'', FunctionType ReturnTypeDef ''print''),
     (''int'', FunctionType ReturnTypeDef ''int''),
     (''abs'', FunctionType ReturnTypeDef ''abs''),
     (''float'', FunctionType ReturnTypeDef ''float''),
     (''len'', FunctionType ReturnTypeDef ''len''),
     (''ord'', FunctionType ReturnTypeDef ''ord''),
     (''pow'', FunctionType ReturnTypeDef ''pow''),
     (''round'', FunctionType ReturnTypeDef ''round''),
     (''sum'', FunctionType ReturnTypeDef ''sum''),
     (''bool'', FunctionType ReturnTypeDef ''bool''),
     (''all'', FunctionType ReturnTypeDef ''all''),
     (''any'', FunctionType ReturnTypeDef ''any''),
     (''isinstance'', FunctionType ReturnTypeDef ''isinstance''),
     (''input'', FunctionType ReturnTypeDef ''input''),
     (''str'', FunctionType ReturnTypeDef ''str''),
     (''chr'', FunctionType ReturnTypeDef ''chr''),
     (''repr'', FunctionType ReturnTypeDef ''repr''),
     (''open'', FunctionType ReturnTypeDef ''open''),
     (''map'', FunctionType ReturnTypeDef ''map''),
     (''list'', FunctionType (SequenceCall ''SetType'') ''list''),
     (''dict'', FunctionType ReturnTypeDef ''dict''),
     (''sorted'', FunctionType IdentityDef ''sorted''),
     (''reversed'', FunctionType IdentityDef ''reversed''),
     (''filter'', FunctionType IdentityDef ''filter''),
     (''range'', FunctionType ReturnTypeDef ''range''),
     (''dir'', FunctionType ReturnTypeDef ''dir''),
     (''max'', FunctionType ElementDef ''max''),
     (''min'', FunctionType ElementDef ''min''),
     (''zip'', FunctionType ReturnTypeDef ''zip'')]"

text \<open>
  \<open>identify_caller\<close>; the branch for attributes and subscripts reads the unbound
  name \<open>nodevalue\<close>.
\<close>

fun identify_caller :: "ast \<Rightarrow> error + string option" where
  "identify_caller (Name p n c) = Inr (Some n)"
| "identify_caller (Call p f args keywords) = identify_caller f"
| "identify_caller (Attribute p v a c) = Inl NameError"
| "identify_caller (Subscript p v i c) = Inl NameError"
| "identify_caller node = Inr None"

text \<open>
  The function \<open>action\<close> of \<open>visit_Assign\<close>, with its loop over the elements of a
  tuple or list target, and \<open>walk_targets\<close> applied to it.
\<close>

fun action :: "tifa \<Rightarrow> ast \<Rightarrow> pyval \<Rightarrow> unit result"
  and action_elts :: "tifa \<Rightarrow> int \<Rightarrow> ast list \<Rightarrow> pyval \<Rightarrow> unit result" where
  "action self (Name p n c) typ =
     (case store_variable self (Some n) typ of
         Inl failed \<Rightarrow> Inl failed
       | Inr (st, self1) \<Rightarrow> Inr ((), self1))"
| "action self (Tuple p elts c) typ = action_elts self 0 elts typ"
| "action self (List p elts c) typ = action_elts self 0 elts typ"
| "action self (Assign p ts v) typ = Inr ((), self)"
| "action self (AugAssign p t oper v) typ = Inr ((), self)"
| "action self (BinOp p l oper r) typ = Inr ((), self)"
| "action self (UnaryOp p oper v) typ = Inr ((), self)"
| "action self (Import p ns) typ = Inr ((), self)"
| "action self (ImportFrom p m ns) typ = Inr ((), self)"
| "action self (Subscript p v i c) typ = Inr ((), self)"
| "action self (Attribute p v a c) typ = Inr ((), self)"
| "action self (Call p f args keywords) typ = Inr ((), self)"
| "action self (Other n p children) typ = Inr ((), self)"
| "action_elts self i [] typ = Inr ((), self)"
| "action_elts self i (elt # rest) typ =
     (case index_value typ (LiteralNum i) of
         Inl e \<Rightarrow> Inl (e, self)
       | Inr eltType \<Rightarrow>
           (case action self elt eltType of
               Inl failed \<Rightarrow> Inl failed
             | Inr (u, self1) \<Rightarrow> action_elts self1 (i + 1) rest typ))"

fun walk_targets :: "tifa \<Rightarrow> ast list \<Rightarrow> pyval \<Rightarrow> unit result" where
  "walk_targets self [] typ = Inr ((), self)"
| "walk_targets self (target # rest) typ =
     (case action self target typ of
         Inl failed \<Rightarrow> Inl failed
       | Inr (u, self1) \<Rightarrow> walk_targets self1 rest typ)"

text \<open>
  \<open>visit_Name\<close>. An entry of \<open>BUILTINS\<close> is an object without \<open>__bool__\<close> or
  \<open>__len__\<close>, hence true.
\<close>

definition visit_Name :: "tifa \<Rightarrow> string \<Rightarrow> expr_context \<Rightarrow> pyval result" where
  "visit_Name self n ctx =
     (case (if n = ''___'' then report_issue self ''Unconnected blocks'' [] else Inr ((), self)) of
         Inl failed \<Rightarrow> Inl failed
       | Inr (u, self1) \<Rightarrow>
           (if ctx = Load then
              (if n = ''True'' \<or> n = ''False'' then Inr (Instance BoolType, self1)
               else if n = ''None'' then Inr (Instance NoneType, self1)
               else (case find_variable_scope self1 (Some n) of
                   Inl e \<Rightarrow> Inl (e, self1)
                 | Inr variable \<Rightarrow>
                     (case map_of BUILTINS n of
                         Some builtin \<Rightarrow>
                           (if \<not> ident_exists variable then Inr (Instance builtin, self1)
                            else (case load_variable self1 (Some n) of
                                Inl failed \<Rightarrow> Inl failed
                              | Inr (st, self2) \<Rightarrow> Inr (state_type st, self2)))
                       | None \<Rightarrow>
                           (case load_variable self1 (Some n) of
                               Inl failed \<Rightarrow> Inl failed
                             | Inr (st, self2) \<Rightarrow> Inr (state_type st, self2)))))
            else (case find_variable_scope self1 (Some n) of
                Inl e \<Rightarrow> Inl (e, self1)
              | Inr variable \<Rightarrow>
                  (if ident_exists variable then
                     (case ident_state variable of
                         None \<Rightarrow> Inl (AttributeError, self1)
                       | Some st \<Rightarrow> Inr (state_type st, self1))
                   else Inr (Instance UnknownType, self1)))))"

text \<open>
  The end of \<open>visit_BinOp\<close>, after both operands are visited. On a miss in the
  table the payload of the issue reads \<open>node.op.name\<close>, and an operator node has
  no attribute \<open>name\<close>.
\<close>

definition bin_op :: "tifa \<Rightarrow> operator \<Rightarrow> pyval \<Rightarrow> pyval \<Rightarrow> pyval result" where
  "bin_op self oper left right =
     (if left = Instance UnknownType \<or> right = Instance UnknownType
      then Inr (Instance UnknownType, self)
      else (case op_lookup oper left right of
          Some (Inl e) \<Rightarrow> Inl (e, self)
        | Some (Inr result) \<Rightarrow> Inr (result, self)
        | None \<Rightarrow> Inl (AttributeError, self)))"

text \<open>The end of \<open>visit_AugAssign\<close>, after the value and the target are visited.\<close>

definition aug_assign :: "tifa \<Rightarrow> ast \<Rightarrow> operator \<Rightarrow> pyval \<Rightarrow> pyval \<Rightarrow> pyval result" where
  "aug_assign self target oper left right =
     (case identify_caller target of
         Inl e \<Rightarrow> Inl (e, self)
       | Inr name \<Rightarrow>
           (case load_variable self name of
               Inl failed \<Rightarrow> Inl failed
             | Inr (loaded, self1) \<Rightarrow>
                 (if left = Instance UnknownType \<or> right = Instance UnknownType
                  then Inr (Instance UnknownType, self1)
                  else (case op_lookup oper left right of
                      Some (Inl e) \<Rightarrow> Inl (e, self1)
                    | Some (Inr result_type) \<Rightarrow>
                        (case store_variable self1 name result_type of
                            Inl failed \<Rightarrow> Inl failed
                          | Inr (stored, self2) \<Rightarrow> Inr (result_type, self2))
                    | None \<Rightarrow> Inl (AttributeError, self1)))))"

text \<open>
  The end of \<open>visit_UnaryOp\<close>. The table is keyed by operator class and then by
  type class; the second test looks the operator class up among the type classes
  and never finds it.
\<close>

definition VALID_UNARYOP_TYPES :: "(unaryop \<times> (cls \<times> cls) list) list" where
  "VALID_UNARYOP_TYPES =
     [(UAdd, [(C_NumType, C_NumType)]),
      (USub, [(C_NumType, C_NumType)]),
      (Invert, [(C_NumType, C_NumType)])]"

definition unary_op :: "unaryop \<Rightarrow> pyval \<Rightarrow> pyval" where
  "unary_op oper operand =
     (if oper = Not_op then Instance BoolType
      else if operand = Instance UnknownType then Instance UnknownType
      else (case map_of VALID_UNARYOP_TYPES oper of
          Some by_operand \<Rightarrow> Instance UnknownType
        | None \<Rightarrow> Instance UnknownType))"

text \<open>\<open>alias.asname or alias.name\<close>.\<close>

definition asname_or_name :: "import_alias \<Rightarrow> string" where
  "asname_or_name a =
     (case a of
         Alias n None \<Rightarrow> n
       | Alias n (Some asname) \<Rightarrow> (if asname \<noteq> [] then asname else n))"

fun visit_Import :: "tifa \<Rightarrow> import_alias list \<Rightarrow> pyval result" where
  "visit_Import self [] = Inr (NoneValue, self)"
| "visit_Import self (Alias n asname # rest) =
     (case load_module self n of
         Inl failed \<Rightarrow> Inl failed
       | Inr (module_type, self1) \<Rightarrow>
           (case store_variable self1 (Some (asname_or_name (Alias n asname))) (Instance module_type) of
               Inl failed \<Rightarrow> Inl failed
             | Inr (st, self2) \<Rightarrow> visit_Import self2 rest))"

fun visit_ImportFrom :: "tifa \<Rightarrow> string option \<Rightarrow> import_alias list \<Rightarrow> pyval result" where
  "visit_ImportFrom self module [] = Inr (NoneValue, self)"
| "visit_ImportFrom self module (Alias n asname # rest) =
     (case load_module self (case module of None \<Rightarrow> n | Some module_name \<Rightarrow> module_name) of
         Inl failed \<Rightarrow> Inl failed
       | Inr (module_type, self1) \<Rightarrow>
           (case locate self1 of
               Inl e \<Rightarrow> Inl (e, self1)
             | Inr callee_position \<Rightarrow>
                 (case load_attr module_type n of
                     Inl e \<Rightarrow> Inl (e, self1)
                   | Inr name_type \<Rightarrow>
                       (case store_variable self1 (Some (asname_or_name (Alias n asname)))
                               (Instance name_type) of
                           Inl failed \<Rightarrow> Inl failed
                         | Inr (st, self2) \<Rightarrow> visit_ImportFrom self2 module rest))))"

text \<open>
  \<open>Tifa.visit\<close> around the call of \<open>super().visit(node)\<close>: \<open>enter\<close> is what
  precedes the call, \<open>leave\<close> what follows it.
\<close>

definition enter :: "tifa \<Rightarrow> ast \<Rightarrow> unit result" where
  "enter self node =
     (let self1 = self\<lparr>node_chain := node_chain self @ [node], ast_id := ast_id self + 1\<rparr>
      in if length (scope_chain self1) > 1 then
           (case find_variable_scope self1 (Some ''*return'') of
               Inl e \<Rightarrow> Inl (e, self1)
             | Inr return_state \<Rightarrow>
                 (if ident_exists return_state \<and> ident_in_scope return_state then
                    (case ident_state return_state of
                        None \<Rightarrow> Inl (AttributeError, self1)
                      | Some st \<Rightarrow>
                          (if state_set st = ''yes''
                           then report_issue self1 ''Action after return'' []
                           else Inr ((), self1)))
                  else Inr ((), self1)))
         else Inr ((), self1))"

definition leave :: "tifa \<Rightarrow> pyval \<Rightarrow> pyval result" where
  "leave self result =
     (let self1 = self\<lparr>ast_id := ast_id self - 1\<rparr>
      in if node_chain self1 = [] then Inl (IndexError, self1)
         else (let self2 = self1\<lparr>node_chain := butlast (node_chain self1)\<rparr>
               in if result = NoneValue then Inr (Instance UnknownType, self2)
                  else Inr (result, self2)))"

text \<open>
  A context node (\<open>Load\<close>, \<open>Store\<close>, \<open>Del\<close>) as \<open>generic_visit\<close> meets it in the
  field \<open>ctx\<close>: a node without position and without fields. Visiting it enters and
  leaves, with \<open>None\<close> from \<open>generic_visit\<close> in between.
\<close>

definition ctx_node :: "expr_context \<Rightarrow> ast" where
  "ctx_node c =
     (case c of
         Load \<Rightarrow> Other ''Load'' None []
       | Store \<Rightarrow> Other ''Store'' None []
       | Del \<Rightarrow> Other ''Del'' None [])"

definition visit_context :: "tifa \<Rightarrow> expr_context \<Rightarrow> pyval result" where
  "visit_context self c =
     (case enter self (ctx_node c) of
         Inl failed \<Rightarrow> Inl failed
       | Inr (u, self1) \<Rightarrow> leave self1 NoneValue)"

text \<open>
  \<open>visit\<close>, the dispatch of \<open>ast.NodeVisitor.visit\<close> to the seven \<open>visit_\<close> methods
  of the class or to \<open>generic_visit\<close> (\<open>super_visit\<close>), and the loop over a list of
  nodes shared by \<open>_visit_nodes\<close> and \<open>generic_visit\<close>.
\<close>

fun visit :: "tifa \<Rightarrow> ast \<Rightarrow> pyval result"
  and super_visit :: "tifa \<Rightarrow> ast \<Rightarrow> pyval result"
  and visit_nodes :: "tifa \<Rightarrow> ast list \<Rightarrow> unit result" where
  "visit self node =
     (case enter self node of
         Inl failed \<Rightarrow> Inl failed
       | Inr (u, self1) \<Rightarrow>
           (case super_visit self1 node of
               Inl failed \<Rightarrow> Inl failed
             | Inr (result, self2) \<Rightarrow> leave self2 result))"
| "super_visit self (Name p n c) = visit_Name self n c"
| "super_visit self (Assign p targets v) =
     (case visit self v of
         Inl failed \<Rightarrow> Inl failed
       | Inr (value_type, self1) \<Rightarrow>
           (case visit_nodes self1 targets of
               Inl failed \<Rightarrow> Inl failed
             | Inr (u, self2) \<Rightarrow>
                 (case walk_targets self2 targets value_type of
                     Inl failed \<Rightarrow> Inl failed
                   | Inr (u, self3) \<Rightarrow> Inr (NoneValue, self3))))"
| "super_visit self (AugAssign p target oper v) =
     (case visit self v of
         Inl failed \<Rightarrow> Inl failed
       | Inr (right, self1) \<Rightarrow>
           (case visit self1 target of
               Inl failed \<Rightarrow> Inl failed
             | Inr (left, self2) \<Rightarrow> aug_assign self2 target oper left right))"
| "super_visit self (BinOp p l oper r) =
     (case visit self l of
         Inl failed \<Rightarrow> Inl failed
       | Inr (left, self1) \<Rightarrow>
           (case visit self1 r of
               Inl failed \<Rightarrow> Inl failed
             | Inr (right, self2) \<Rightarrow> bin_op self2 oper left right))"
| "super_visit self (UnaryOp p oper v) =
     (case visit self v of
         Inl failed \<Rightarrow> Inl failed
       | Inr (operand, self1) \<Rightarrow> Inr (unary_op oper operand, self1))"
| "super_visit self (Import p names) = visit_Import self names"
| "super_visit self (ImportFrom p module names) = visit_ImportFrom self module names"
| "super_visit self (Tuple p elts c) =
     (case visit_nodes self elts of
         Inl failed \<Rightarrow> Inl failed
       | Inr (u, self1) \<Rightarrow>
           (case visit_context self1 c of
               Inl failed \<Rightarrow> Inl failed
             | Inr (t, self2) \<Rightarrow> Inr (NoneValue, self2)))"
| "super_visit self (List p elts c) =
     (case visit_nodes self elts of
         Inl failed \<Rightarrow> Inl failed
       | Inr (u, self1) \<Rightarrow>
           (case visit_context self1 c of
               Inl failed \<Rightarrow> Inl failed
             | Inr (t, self2) \<Rightarrow> Inr (NoneValue, self2)))"
| "super_visit self (Subscript p v i c) =
     (case visit self v of
         Inl failed \<Rightarrow> Inl failed
       | Inr (t, self1) \<Rightarrow>
           (case visit self1 i of
               Inl failed \<Rightarrow> Inl failed
             | Inr (t, self2) \<Rightarrow>
                 (case visit_context self2 c of
                     Inl failed \<Rightarrow> Inl failed
                   | Inr (t, self3) \<Rightarrow> Inr (NoneValue, self3))))"
| "super_visit self (Attribute p v a c) =
     (case visit self v of
         Inl failed \<Rightarrow> Inl failed
       | Inr (t, self1) \<Rightarrow>
           (case visit_context self1 c of
               Inl failed \<Rightarrow> Inl failed
             | Inr (t, self2) \<Rightarrow> Inr (NoneValue, self2)))"
| "super_visit self (Call p f args keywords) =
     (case visit self f of
         Inl failed \<Rightarrow> Inl failed
       | Inr (t, self1) \<Rightarrow>
           (case visit_nodes self1 args of
               Inl failed \<Rightarrow> Inl failed
             | Inr (u, self2) \<Rightarrow>
                 (case visit_nodes self2 keywords of
                     Inl failed \<Rightarrow> Inl failed
                   | Inr (u, self3) \<Rightarrow> Inr (NoneValue, self3))))"
| "super_visit self (Other n p children) =
     (case visit_nodes self children of
         Inl failed \<Rightarrow> Inl failed
       | Inr (u, self1) \<Rightarrow> Inr (NoneValue, self1))"
| "visit_nodes self [] = Inr ((), self)"
| "visit_nodes self (node # rest) =
     (case visit self node of
         Inl failed \<Rightarrow> Inl failed
       | Inr (t, self1) \<Rightarrow> visit_nodes self1 rest)"

section \<open>The driver\<close>

text \<open>
  \<open>_collect_top_level_varaibles\<close>. The test compares the first part of the name,
  a string, with a scope, an integer; the body it guards reads the unbound name
  \<open>fullName\<close>.
\<close>

fun collect_names :: "tifa \<Rightarrow> string list \<Rightarrow> unit result" where
  "collect_names self [] = Inr ((), self)"
| "collect_names self (full_name # rest) =
     (let split_name = split CHR ''/'' full_name
      in if length split_name = 2 then
           (case scope_chain self of
               [] \<Rightarrow> Inl (IndexError, self)
             | scope # scopes \<Rightarrow>
                 (if str_eq_int (split_name ! 0) scope then Inl (NameError, self)
                  else collect_names self rest))
         else collect_names self rest)"

definition collect_top_level_varaibles :: "tifa \<Rightarrow> unit result" where
  "collect_top_level_varaibles self =
     (let self1 = self\<lparr>report := (report self)\<lparr>top_level_variables := Some []\<rparr>\<rparr>
      in (case path_chain self1 of
          [] \<Rightarrow> Inl (IndexError, self1)
        | pid # others \<Rightarrow>
            (case getitem (name_map self1) pid of
                Inl e \<Rightarrow> Inl (e, self1)
              | Inr main_path_vars \<Rightarrow> collect_names self1 (map fst main_path_vars))))"

definition process_ast :: "tifa \<Rightarrow> ast \<Rightarrow> report result" where
  "process_ast self ast_tree =
     (let self1 = (reset self)\<lparr>report := initialize_report\<rparr>
      in (case visit self1 ast_tree of
          Inl failed \<Rightarrow> Inl failed
        | Inr (t, self2) \<Rightarrow>
            (let self3 = self2\<lparr>report := (report self2)\<lparr>variables := name_map self2\<rparr>\<rparr>
             in (case finish_scope self3 of
                 Inl failed \<Rightarrow> Inl failed
               | Inr (u, self4) \<Rightarrow>
                   (case collect_top_level_varaibles self4 of
                       Inl failed \<Rightarrow> Inl failed
                     | Inr (u, self5) \<Rightarrow> Inr (report self5, self5))))))"

text \<open>
  \<open>process_code\<close>, with \<open>ast.parse\<close> as the parameter \<open>parse\<close>. The handler stores
  the error report and raises the exception again; the \<open>return\<close> after the
  \<open>raise\<close> is never reached.
\<close>

definition process_code ::
  "(string \<Rightarrow> string \<Rightarrow> error + ast) \<Rightarrow> tifa \<Rightarrow> string \<Rightarrow> string \<Rightarrow> report result" where
  "process_code parse self code filename =
     (let self1 = self\<lparr>source := (if code \<noteq> [] then split CHR 0x0A code else [])\<rparr>
      in (case (case parse code filename of
                   Inl e \<Rightarrow> Inl (e, self1)
                 | Inr ast_tree \<Rightarrow> process_ast self1 ast_tree) of
          Inr returned \<Rightarrow> Inr returned
        | Inl (err, self2) \<Rightarrow> Inl (err, self2\<lparr>report := error_report err\<rparr>)))"

section \<open>Objects used as examples\<close>

text \<open>
  An object whose attributes are all empty, and the object as \<open>process_ast\<close> has
  it while it visits one node at top level.
\<close>

definition blank :: tifa where
  "blank =
     \<lparr>source = [], report = initialize_report, path_id = 0, scope_id = 0, ast_id = 0,
      path_names = [], scope_names = [], node_chain = [], scope_chain = [],
      path_chain = [], name_map = [], definition_chain = [], path_parents = []\<rparr>"

definition visiting :: "ast \<Rightarrow> tifa" where
  "visiting node = (reset blank)\<lparr>node_chain := [node]\<rparr>"

definition name_x :: "int \<Rightarrow> ast" where
  "name_x lineno = Name (Position 0 lineno) ''x'' Store"


definition written_x :: "int \<Rightarrow> state" where
  "written_x lineno =
     State (Some ''x'') [] (Instance NumType) ''store'' (Position 0 lineno)
       ''no'' ''yes'' ''no'' None"

text \<open>The object at a node, with one state recorded for \<open>x\<close> at module level.\<close>

definition holding :: "ast \<Rightarrow> state \<Rightarrow> tifa" where
  "holding node st = (visiting node)\<lparr>name_map := [(0, [(''0/x'', st)])]\<rparr>"

text \<open>A parser that rejects every source text.\<close>

definition rejecting :: "string \<Rightarrow> string \<Rightarrow> error + ast" where
  "rejecting code filename = Inl SyntaxError"

section \<open>Objects that differ in the attribute \<open>source\<close>\<close>

text \<open>
  The object with another value of \<open>source\<close>, and a result with that change made
  to the object it carries.
\<close>

definition with_source :: "string list \<Rightarrow> tifa \<Rightarrow> tifa" where
  "with_source x s = s\<lparr>source := x\<rparr>"

definition lift :: "string list \<Rightarrow> 'a result \<Rightarrow> 'a result" where
  "lift x r = (case r of Inl (e, s) \<Rightarrow> Inl (e, with_source x s) | Inr (v, s) \<Rightarrow> Inr (v, with_source x s))"


section \<open>Properties of the type lattice\<close>

text \<open>
  C4: for every type \<open>t\<close>, \<open>Unknown\<close> and Python's \<open>None\<close> included,
  \<open>are_types_equal(Unknown, t)\<close> and \<open>are_types_equal(t, Unknown)\<close> both return
  \<open>False\<close>.
\<close>

theorem unknown_never_equal:
  "are_types_equal (Some UnknownType) t = Inr False \<and>
   are_types_equal t (Some UnknownType) = Inr False"
proof (cases t)
  case None
  then show ?thesis by simp
next
  case (Some r)
  then show ?thesis by simp
qed

text \<open>
  C10: for every type \<open>t\<close>, \<open>are_types_equal(None, t)\<close> and
  \<open>are_types_equal(t, None)\<close> return \<open>False\<close>; neither raises.
\<close>

theorem none_never_equal:
  "are_types_equal None t = Inr False \<and> are_types_equal t None = Inr False"
proof (cases t)
  case None
  then show ?thesis by simp
next
  case (Some l)
  then show ?thesis by simp
qed

text \<open>
  What \<open>merge_types\<close> returns on containers: with a list, set or generator on both
  sides, the right operand's subtype when the left operand is empty and a clone of
  the left operand's subtype otherwise; with a tuple on both sides, the Python list
  of the left operand's subtypes followed by the right operand's.
\<close>

lemma merge_types_on_containers:
  "(is_list_like left \<and> is_list_like right \<longrightarrow>
      merge_types left right =
        Inr (Instance (if empty_attr left then subtype right
                       else clone (subtype left)))) \<and>
   merge_types (TupleType ls) (TupleType rs) = Inr (TypeList (ls @ rs))"
  by (simp add: merge_types_def)

text \<open>
  C6 at \<open>(Num,) + (Str,)\<close>: the rule the operator table holds for \<open>+\<close> between two
  tuples is \<open>merge_types\<close>, and what the walk through the table returns is the bare
  Python list \<open>[Num, Str]\<close>, not the tuple type with these subtypes and not an
  instance of any type.
\<close>

theorem tuple_add_returns_list:
  "op_lookup Add (Instance (TupleType [NumType])) (Instance (TupleType [StrType])) =
     Some (merge_types (TupleType [NumType]) (TupleType [StrType])) \<and>
   merge_types (TupleType [NumType]) (TupleType [StrType]) = Inr (TypeList [NumType, StrType]) \<and>
   op_lookup Add (Instance (TupleType [NumType])) (Instance (TupleType [StrType])) \<noteq>
     Some (Inr (Instance (TupleType [NumType, StrType])))"
  by (simp add: op_lookup_def VALID_BINOP_TYPES_def merge_types_def)

text \<open>
  C7 at the entry for \<open>Num + Num\<close>: the rule found in the table returns the class
  \<open>NumType\<close> itself, which is not an instance of \<open>NumType\<close>.
\<close>

theorem num_add_returns_class:
  "op_lookup Add (Instance NumType) (Instance NumType) = Some (Inr (ClassObj C_NumType)) \<and>
   op_lookup Add (Instance NumType) (Instance NumType) \<noteq> Some (Inr (Instance NumType))"
  by (simp add: op_lookup_def VALID_BINOP_TYPES_def NumType_any_def)


section \<open>Lemmas on qualified names\<close>

lemma digit_char_digit: "d < 10 \<Longrightarrow> digit_char d \<in> set ''0123456789''"
  unfolding digit_char_def by (rule nth_mem) simp

lemma str_nat_chars: "set (str_nat n) \<subseteq> set ''0123456789''"
proof (induction n rule: str_nat.induct)
  case (1 n)
  show ?case
  proof (cases "n < 10")
    case True
    then show ?thesis using digit_char_digit [of n] by (subst str_nat.simps) simp
  next
    case False
    have "n mod 10 < 10" by simp
    then have "digit_char (n mod 10) \<in> set ''0123456789''" by (rule digit_char_digit)
    with False 1 show ?thesis by (subst str_nat.simps) simp
  qed
qed

lemma str_nat_nonempty: "str_nat n \<noteq> []"
  by (subst str_nat.simps) simp

lemma str_int_nonempty: "str_int i \<noteq> []"
  by (simp add: str_int_def str_nat_nonempty)

lemma str_int_hd: "hd (str_int i) \<noteq> CHR ''/''"
proof (cases "i < 0")
  case True
  then show ?thesis by (simp add: str_int_def)
next
  case False
  have "hd (str_nat (nat i)) \<in> set (str_nat (nat i))"
    using str_nat_nonempty by (rule hd_in_set)
  then have "hd (str_nat (nat i)) \<in> set ''0123456789''"
    using str_nat_chars by blast
  with False show ?thesis by (auto simp add: str_int_def)
qed

lemma join_append:
  "xs \<noteq> [] \<Longrightarrow> ys \<noteq> [] \<Longrightarrow> join sep (xs @ ys) = join sep xs @ sep @ join sep ys"
proof (induction sep xs rule: join.induct)
  case (1 sep)
  then show ?case by simp
next
  case (2 sep x)
  then show ?case by (cases ys) simp_all
next
  case (3 sep x y ys)
  then show ?case by simp
qed

lemma join_strs_nonempty:
  "ks \<noteq> [] \<Longrightarrow> join ''/'' (map str_int ks) \<noteq> [] \<and> hd (join ''/'' (map str_int ks)) \<noteq> CHR ''/''"
proof (cases ks)
  case Nil
  assume "ks \<noteq> []"
  with Nil show ?thesis by simp
next
  case (Cons k rest)
  then show ?thesis
    using str_int_nonempty [of k] str_int_hd [of k] by (cases rest) simp_all
qed

lemma key_differs_abstract:
  fixes J Ji D n :: string
  assumes D: "D \<noteq> []" "hd D \<noteq> CHR ''/''"
    and J: "J = (if z then D else Ji @ ''/'' @ D)"
    and Ji: "z \<Longrightarrow> Ji = []"
  shows "Ji @ ''/'' @ n \<noteq> (if n \<noteq> [] then J @ ''/'' @ n else J)"
proof (cases z)
  case True
  then have eqs: "Ji = []" "J = D" using J Ji by simp_all
  show ?thesis
  proof (cases "n = []")
    case True
    have "D \<noteq> ''/''" using D(2) by (cases D) auto
    with True eqs show ?thesis by simp
  next
    case False
    have "length (Ji @ ''/'' @ n) \<noteq> length (J @ ''/'' @ n)"
      using eqs D(1) by simp
    then have "Ji @ ''/'' @ n \<noteq> J @ ''/'' @ n" by (rule contrapos_nn) simp
    with False show ?thesis by simp
  qed
next
  case False
  then have eq: "J = Ji @ ''/'' @ D" using J by simp
  have "length (Ji @ ''/'' @ n) \<noteq> length (if n \<noteq> [] then J @ ''/'' @ n else J)"
    using D(1) by (simp add: eq)
  then show ?thesis by (rule contrapos_nn) simp
qed

lemma prefix_key_differs:
  assumes "i < length chain"
  shows "join ''/'' (map str_int (take i chain)) @ ''/'' @ n \<noteq>
         (if n \<noteq> [] then join ''/'' (map str_int chain) @ ''/'' @ n
          else join ''/'' (map str_int chain))"
proof (rule key_differs_abstract [where z = "i = 0" and D = "join ''/'' (map str_int (drop i chain))"])
  from assms have dne: "drop i chain \<noteq> []" by simp
  then show "join ''/'' (map str_int (drop i chain)) \<noteq> []"
    and "hd (join ''/'' (map str_int (drop i chain))) \<noteq> CHR ''/''"
    using join_strs_nonempty [of "drop i chain"] by simp_all
  show "join ''/'' (map str_int chain) =
      (if i = 0 then join ''/'' (map str_int (drop i chain))
       else join ''/'' (map str_int (take i chain)) @ ''/'' @ join ''/'' (map str_int (drop i chain)))"
  proof (cases "i = 0")
    case True
    then show ?thesis by simp
  next
    case False
    with assms have "take i chain \<noteq> []" by auto
    then have "join ''/'' (map str_int (take i chain) @ map str_int (drop i chain)) =
               join ''/'' (map str_int (take i chain)) @ ''/'' @ join ''/'' (map str_int (drop i chain))"
      using dne by (intro join_append) simp_all
    then show ?thesis using False by (simp flip: map_append)
  qed
  show "i = 0 \<Longrightarrow> join ''/'' (map str_int (take i chain)) = []" by simp
qed

section \<open>Lemmas on the state store\<close>

lemma find_in_paths_found:
  "find_in_paths s i name pids = Inr (Some found) \<Longrightarrow> ident_exists found"
  by (induction pids) (auto simp: Let_def split: sum.splits option.splits)

lemma find_in_paths_absent:
  "find_in_paths s i (Some n) pids = Inr None \<longleftrightarrow>
     (\<forall>pid \<in> set pids. \<exists>path. map_of (name_map s) pid = Some path \<and>
        map_of path (join ''/'' (map str_int (take i (scope_chain s))) @ ''/'' @ n) = None)"
  by (induction pids) (auto simp: getitem_def Let_def split: option.splits)

lemma find_in_scopes_absent:
  "(find_in_scopes s name idxs = Inr v \<and> \<not> ident_exists v) \<longleftrightarrow>
     (v = Identifier False False ''UNKNOWN'' None \<and>
      (\<forall>i \<in> set idxs. find_in_paths s i name (path_chain s) = Inr None))"
proof (induction idxs)
  case Nil
  then show ?case by auto
next
  case (Cons i idxs)
  show ?case
  proof (cases "find_in_paths s i name (path_chain s)")
    case (Inl e)
    then show ?thesis by simp
  next
    case (Inr r)
    show ?thesis
    proof (cases r)
      case None
      with Inr Cons show ?thesis by simp
    next
      case (Some found)
      with Inr have "ident_exists found" by (simp add: find_in_paths_found)
      with Inr Some show ?thesis by auto
    qed
  qed
qed

lemma trace_state_fails: "trace_state s st m \<noteq> Inr x"
  by (simp add: trace_state_def copy_def split: sum.splits)

lemma store_existing_fails: "store_existing s name typ fn cp v \<noteq> Inr x"
proof (cases "ident_state v")
  case None
  then show ?thesis by (simp add: store_existing_def)
next
  case (Some old)
  obtain e where "trace_state s old ''store'' = Inl e"
    using trace_state_fails [of s old "''store''"] by (cases "trace_state s old ''store''") auto
  with Some show ?thesis by (simp add: store_existing_def)
qed

lemma store_variable_returns:
  assumes "store_variable s name typ = Inr (st, s1)"
  shows "\<exists>cp others p path.
      path_chain s = cp # others \<and>
      find_variable_scope s name = Inr (Identifier False False ''UNKNOWN'' None) \<and>
      locate s = Inr p \<and>
      st = State name [] typ ''store'' p ''no'' ''yes'' ''no'' None \<and>
      map_of (name_map s) cp = Some path \<and>
      s1 = s\<lparr>name_map := AList.update cp (AList.update (scope_chain_str s name) st path) (name_map s)\<rparr>"
proof -
  from assms obtain cp others where pc: "path_chain s = cp # others"
    by (cases "path_chain s") (simp_all add: store_variable_def)
  from assms pc obtain v where v: "find_variable_scope s name = Inr v"
    by (cases "find_variable_scope s name") (simp_all add: store_variable_def)
  have nex: "\<not> ident_exists v"
  proof
    assume "ident_exists v"
    with assms pc v have "store_existing s name typ (scope_chain_str s name) cp v = Inr (st, s1)"
      by (simp add: store_variable_def)
    then show False by (simp add: store_existing_fails)
  qed
  with v have veq: "v = Identifier False False ''UNKNOWN'' None"
    using find_in_scopes_absent [of s name "[0 ..< length (scope_chain s)]" v]
    by (simp add: find_variable_scope_def)
  from assms pc v nex obtain p where p: "locate s = Inr p"
    by (cases "locate s") (simp_all add: store_variable_def)
  from assms pc v nex p obtain path where path: "map_of (name_map s) cp = Some path"
    by (cases "map_of (name_map s) cp") (simp_all add: store_variable_def set_name_def getitem_def)
  from assms pc v nex p path
  have "st = State name [] typ ''store'' p ''no'' ''yes'' ''no'' None \<and>
        s1 = s\<lparr>name_map := AList.update cp (AList.update (scope_chain_str s name) st path) (name_map s)\<rparr>"
    by (auto simp add: store_variable_def set_name_def getitem_def Let_def)
  with pc v veq p path show ?thesis by blast
qed

lemma find_variable_scope_after_set:
  assumes absent: "find_variable_scope s (Some n) = Inr (Identifier False False ''UNKNOWN'' None)"
    and path: "map_of (name_map s) cp = Some path"
  shows "find_variable_scope
           (s\<lparr>name_map := AList.update cp (AList.update (scope_chain_str s (Some n)) st path) (name_map s)\<rparr>)
           (Some n) = Inr (Identifier False False ''UNKNOWN'' None)"
proof -
  let ?s1 = "s\<lparr>name_map := AList.update cp (AList.update (scope_chain_str s (Some n)) st path) (name_map s)\<rparr>"
  let ?nf = "Identifier False False ''UNKNOWN'' None"
  from absent have all: "\<forall>i \<in> set [0 ..< length (scope_chain s)]. find_in_paths s i (Some n) (path_chain s) = Inr None"
    using find_in_scopes_absent [of s "Some n" "[0 ..< length (scope_chain s)]" ?nf]
    by (simp add: find_variable_scope_def)
  have "find_in_paths ?s1 i (Some n) (path_chain ?s1) = Inr None" if i: "i < length (scope_chain s)" for i
  proof -
    from all i have old: "find_in_paths s i (Some n) (path_chain s) = Inr None" by simp
    have differs: "join ''/'' (map str_int (take i (scope_chain s))) @ ''/'' @ n \<noteq> scope_chain_str s (Some n)"
      using prefix_key_differs [OF i, of n] by (simp add: scope_chain_str_def)
    show ?thesis
      unfolding find_in_paths_absent
    proof
      fix pid assume "pid \<in> set (path_chain ?s1)"
      then have "pid \<in> set (path_chain s)" by simp
      with old obtain q where q: "map_of (name_map s) pid = Some q"
        "map_of q (join ''/'' (map str_int (take i (scope_chain s))) @ ''/'' @ n) = None"
        unfolding find_in_paths_absent by blast
      show "\<exists>path'. map_of (name_map ?s1) pid = Some path' \<and>
              map_of path' (join ''/'' (map str_int (take i (scope_chain ?s1))) @ ''/'' @ n) = None"
      proof (cases "pid = cp")
        case True
        with q path differs show ?thesis by (simp add: update_conv')
      next
        case False
        with q show ?thesis by (simp add: update_conv')
      qed
    qed
  qed
  then have "\<forall>i \<in> set [0 ..< length (scope_chain ?s1)]. find_in_paths ?s1 i (Some n) (path_chain ?s1) = Inr None"
    by simp
  then have "find_in_scopes ?s1 (Some n) [0 ..< length (scope_chain ?s1)] = Inr ?nf \<and> \<not> ident_exists ?nf"
    unfolding find_in_scopes_absent by simp
  then show ?thesis by (simp add: find_variable_scope_def)
qed

text \<open>
  After any write that returns, \<open>find_variable_scope\<close> does not find the variable
  written.
\<close>

lemma store_variable_then_absent:
  assumes "store_variable s (Some n) t = Inr (st, s1)"
  shows "find_variable_scope s1 (Some n) = Inr (Identifier False False ''UNKNOWN'' None)"
proof -
  from store_variable_returns [OF assms] obtain cp others p path where
    absent: "find_variable_scope s (Some n) = Inr (Identifier False False ''UNKNOWN'' None)" and
    path: "map_of (name_map s) cp = Some path" and
    s1: "s1 = s\<lparr>name_map := AList.update cp
           (AList.update (scope_chain_str s (Some n)) st path) (name_map s)\<rparr>"
    by blast
  show ?thesis unfolding s1 using absent path by (rule find_variable_scope_after_set)
qed

lemma locate_name_map [simp]: "locate (s\<lparr>name_map := m\<rparr>) = locate s"
  by (simp add: locate_def)

lemma locate_report [simp]: "locate (s\<lparr>report := r\<rparr>) = locate s"
  by (simp add: locate_def)

lemma report_issue_returns:
  assumes "locate s = Inr p" and "map_of data ''position'' = None"
    and "map_of (issues (report s)) kind = Some records"
  shows "report_issue s kind data =
           Inr ((), s\<lparr>report := (report s)\<lparr>issues :=
                  AList.update kind (records @ [data @ [(''position'', Pos p)]]) (issues (report s))\<rparr>\<rparr>)"
  using assms by (simp add: report_issue_def)


lemma str_int_0: "str_int 0 = ''0''"
  by (simp add: str_int_def str_nat.simps [of 0] digit_char_def)

lemma in_scope_0x: "in_scope ''0/x'' [0] = False"
  by (simp add: in_scope_def str_list_eq_int_list_def str_eq_int_def)

section \<open>Properties of the state store\<close>

text \<open>
  C1 at a first write of \<open>x\<close> at module level: \<open>store_variable\<close> records the state
  under \<open>0/x\<close>, and \<open>find_variable_scope\<close> on the resulting object, with the same
  scope chain and path chain, answers that \<open>x\<close> does not exist.
\<close>

theorem store_then_find_misses:
  "store_variable (visiting (name_x 1)) (Some ''x'') (Instance NumType) =
     Inr (written_x 1, holding (name_x 1) (written_x 1)) \<and>
   find_variable_scope (holding (name_x 1) (written_x 1)) (Some ''x'') =
     Inr (Identifier False False ''UNKNOWN'' None)"
  by (simp add: store_variable_def find_variable_scope_def holding_def visiting_def
      reset_def blank_def name_x_def written_x_def scope_chain_str_def str_int_0
      getitem_def locate_def set_name_def Let_def)

text \<open>
  A read right after a write, on the object as the write left it: the read does
  not find the variable, reports it as read out of scope or undefined, and puts
  in place of the written state a new one of unknown type whose \<open>set\<close> flag is
  \<open>no\<close>.
\<close>

lemma read_after_write_misses:
  assumes stored: "store_variable self (Some name) typ = Inr (written, self1)"
    and kind1: "map_of (issues (report self)) ''Read out of scope'' \<noteq> None"
    and kind2: "map_of (issues (report self)) ''Undefined variables'' \<noteq> None"
  shows "\<exists>p self2.
           load_variable self1 (Some name) =
             Inr (State (Some name) [] (Instance UnknownType) ''load'' p ''yes'' ''no'' ''no'' None,
                  self2)"
proof -
  from store_variable_returns [OF stored] obtain cp others p path where
    pc: "path_chain self = cp # others" and
    absent: "find_variable_scope self (Some name) = Inr (Identifier False False ''UNKNOWN'' None)" and
    p: "locate self = Inr p" and
    path: "map_of (name_map self) cp = Some path" and
    s1: "self1 = self\<lparr>name_map := AList.update cp
           (AList.update (scope_chain_str self (Some name)) written path) (name_map self)\<rparr>"
    by blast
  define full_name where "full_name = scope_chain_str self (Some name)"
  define kind where "kind = (if ident_exists (find_variable_out_of_scope self1 (Some name))
      then ''Read out of scope'' else ''Undefined variables'')"
  from kind1 kind2 obtain records where records: "map_of (issues (report self)) kind = Some records"
    by (cases "ident_exists (find_variable_out_of_scope self1 (Some name))") (auto simp add: kind_def)
  define loaded where "loaded = State (Some name) [] (Instance UnknownType) ''load'' p ''yes'' ''no'' ''no'' None"
  define self1' where "self1' = self1\<lparr>report := (report self1)\<lparr>issues :=
      AList.update kind (records @ [[(''name'', Str name), (''position'', Pos p)]]) (issues (report self1))\<rparr>\<rparr>"
  define self2 where "self2 = self1'\<lparr>name_map := AList.update cp
      (AList.update full_name loaded (AList.update full_name written path)) (name_map self1')\<rparr>"
  have absent1: "find_variable_scope self1 (Some name) = Inr (Identifier False False ''UNKNOWN'' None)"
    unfolding s1 using absent path by (rule find_variable_scope_after_set)
  have fn1: "scope_chain_str self1 (Some name) = full_name"
    by (simp add: s1 full_name_def scope_chain_str_def)
  have pc1: "path_chain self1 = cp # others" by (simp add: s1 pc)
  have p1: "locate self1 = Inr p" by (simp add: s1 p)
  have rec1: "map_of (issues (report self1)) kind = Some records" by (simp add: s1 records)
  have issue: "report_issue self1 kind [(''name'', name_obj (Some name))] = Inr ((), self1')"
    using report_issue_returns [OF p1 _ rec1, of "[(''name'', name_obj (Some name))]"]
    by (simp add: self1'_def name_obj_def)
  have p1': "locate self1' = Inr p" by (simp add: self1'_def p1)
  have nm1': "map_of (name_map self1') cp = Some (AList.update full_name written path)"
    by (simp add: self1'_def s1 update_conv' full_name_def)
  have set: "set_name self1' cp full_name loaded = Inr ((), self2)"
    by (simp add: set_name_def getitem_def nm1' self2_def)
  have load: "load_variable self1 (Some name) = Inr (loaded, self2)"
    using issue set [unfolded loaded_def]
    by (simp add: load_variable_def pc1 absent1 fn1 kind_def p1' loaded_def Let_def)
  from load show ?thesis unfolding loaded_def by blast
qed



text \<open>
  C3 at a second write of \<open>x\<close>, on line 2, after a first write on line 1 and no
  read: the state \<open>store_variable\<close> returns has \<open>over\<close> equal to \<open>no\<close> and no
  \<open>over_position\<close>, and the end-of-scope sweep leaves the report as it was, with
  no record under \<open>Overwritten variables\<close>.
\<close>

theorem second_write_not_overwritten:
  "store_variable (holding (name_x 2) (written_x 1)) (Some ''x'') (Instance NumType) =
     Inr (written_x 2, holding (name_x 2) (written_x 2)) \<and>
   state_over (written_x 2) = ''no'' \<and>
   state_over_position (written_x 2) = None \<and>
   finish_scope (holding (name_x 2) (written_x 2)) = Inr ((), holding (name_x 2) (written_x 2)) \<and>
   map_of (issues (report (holding (name_x 2) (written_x 2)))) ''Overwritten variables'' = Some []"
  by (simp add: store_variable_def find_variable_scope_def finish_scope_def holding_def
      visiting_def reset_def blank_def name_x_def written_x_def scope_chain_str_def str_int_0
      getitem_def locate_def set_name_def Let_def in_scope_0x initialize_report_def)

text \<open>
  C5 at \<open>import math\<close>: the module \<open>math\<close> is registered and is returned, and the
  report gains a record under \<open>Submodule not found\<close>.
\<close>

theorem load_math_reports_submodule:
  "(case load_module (visiting (Import (Position 0 1) [Alias ''math'' None])) ''math'' of
       Inl failed \<Rightarrow> False
     | Inr (module_type, self1) \<Rightarrow>
         map_of MODULES ''math'' = Some module_type \<and>
         map_of (issues (report self1)) ''Submodule not found'' =
           Some [[(''name'', Str ''math''), (''position'', Pos (Position 0 1))]])"
  by (simp add: load_module_def MODULES_def report_issue_def locate_def visiting_def
      reset_def blank_def initialize_report_def)

section \<open>Properties of the driver\<close>

text \<open>
  C8 at a source text the parser rejects: \<open>process_code\<close> stores the error report
  in the object and raises the exception of the parser; it does not return the
  report.
\<close>

theorem process_code_raises:
  "process_code rejecting self ''x = ('' ''__main__'' =
     Inl (SyntaxError, self\<lparr>source := [''x = (''], report := error_report SyntaxError\<rparr>)"
  by (simp add: process_code_def rejecting_def)

subsection \<open>Independence from the attribute \<open>source\<close>\<close>

lemma lift_simps [simp]:
  "lift x (Inl (e, s)) = Inl (e, with_source x s)"
  "lift x (Inr (v, s)) = Inr (v, with_source x s)"
  by (simp_all add: lift_def)

lemma lift_case:
  "(case lift x r of Inl f \<Rightarrow> A f | Inr vs \<Rightarrow> B vs) =
   (case r of Inl (e, s) \<Rightarrow> A (e, with_source x s) | Inr (v, s) \<Rightarrow> B (v, with_source x s))"
  by (simp add: lift_def split: sum.splits prod.splits)

lemma ws_fields [simp]:
  "report (with_source x s) = report s"
  "node_chain (with_source x s) = node_chain s"
  "scope_chain (with_source x s) = scope_chain s"
  "path_chain (with_source x s) = path_chain s"
  "name_map (with_source x s) = name_map s"
  "ast_id (with_source x s) = ast_id s"
  by (simp_all add: with_source_def)

lemma ws_updates [simp]:
  "(with_source x s)\<lparr>report := r\<rparr> = with_source x (s\<lparr>report := r\<rparr>)"
  "(with_source x s)\<lparr>name_map := m\<rparr> = with_source x (s\<lparr>name_map := m\<rparr>)"
  "(with_source x s)\<lparr>node_chain := n\<rparr> = with_source x (s\<lparr>node_chain := n\<rparr>)"
  "(with_source x s)\<lparr>ast_id := a\<rparr> = with_source x (s\<lparr>ast_id := a\<rparr>)"
  by (simp_all add: with_source_def)

lemmas case_congs = option.case_cong sum.case_cong list.case_cong prod.case_cong if_cong

lemma locate_ws [simp]: "locate (with_source x s) = locate s"
  by (simp add: locate_def)

lemma scope_chain_str_ws [simp]: "scope_chain_str (with_source x s) n = scope_chain_str s n"
  by (simp add: scope_chain_str_def cong: case_congs)

lemma find_in_paths_ws [simp]: "find_in_paths (with_source x s) i n pids = find_in_paths s i n pids"
proof (cases n)
  case None
  show ?thesis unfolding None by (induction pids) (simp_all cong: case_congs)
next
  case (Some name)
  show ?thesis unfolding Some by (induction pids) (simp_all add: Let_def cong: case_congs)
qed

lemma find_in_scopes_ws [simp]: "find_in_scopes (with_source x s) n idxs = find_in_scopes s n idxs"
  by (induction idxs) (simp_all cong: case_congs)

lemma find_variable_scope_ws [simp]: "find_variable_scope (with_source x s) n = find_variable_scope s n"
  by (simp add: find_variable_scope_def)

lemma find_variable_out_of_scope_ws [simp]:
  "find_variable_out_of_scope (with_source x s) n = find_variable_out_of_scope s n"
  by (simp add: find_variable_out_of_scope_def)

lemma trace_state_ws [simp]: "trace_state (with_source x s) st m = trace_state s st m"
  by (simp add: trace_state_def)

lemma report_issue_ws [simp]: "report_issue (with_source x s) k d = lift x (report_issue s k d)"
  by (simp add: report_issue_def split: sum.splits option.splits)

lemma set_name_ws [simp]: "set_name (with_source x s) cp fn st = lift x (set_name s cp fn st)"
  by (simp add: set_name_def split: sum.splits)

lemma lift_Inl: "lift x (Inl f) = (case f of (e, s) \<Rightarrow> Inl (e, with_source x s))"
  by (simp split: prod.splits)

lemma case_sum_if:
  "(case (if c then a else b) of Inl f \<Rightarrow> A f | Inr v \<Rightarrow> B v) =
   (if c then (case a of Inl f \<Rightarrow> A f | Inr v \<Rightarrow> B v)
    else (case b of Inl f \<Rightarrow> A f | Inr v \<Rightarrow> B v))"
  by simp

lemma lift_if: "lift x (if c then a else b) = (if c then lift x a else lift x b)"
  by simp

lemma lift_case_sum:
  "lift x (case r of Inl f \<Rightarrow> A f | Inr vs \<Rightarrow> B vs) =
   (case r of Inl f \<Rightarrow> lift x (A f) | Inr vs \<Rightarrow> lift x (B vs))"
  by (simp split: sum.splits)

lemma lift_case_prod:
  "lift x (case p of (a, b) \<Rightarrow> A a b) = (case p of (a, b) \<Rightarrow> lift x (A a b))"
  by (simp split: prod.splits)

lemma lift_case_option:
  "lift x (case r of None \<Rightarrow> A | Some v \<Rightarrow> B v) =
   (case r of None \<Rightarrow> lift x A | Some v \<Rightarrow> lift x (B v))"
  by (simp split: option.splits)

lemma lift_case_list:
  "lift x (case r of [] \<Rightarrow> A | v # vs \<Rightarrow> B v vs) =
   (case r of [] \<Rightarrow> lift x A | v # vs \<Rightarrow> lift x (B v vs))"
  by (simp split: list.splits)

lemmas lift_push = case_sum_if lift_Inl lift_if lift_case_sum lift_case_prod lift_case_option lift_case_list lift_case

lemma store_existing_ws [simp]:
  "store_existing (with_source x s) n t fn cp v = lift x (store_existing s n t fn cp v)"
  by (simp add: store_existing_def lift_push Let_def cong: case_congs)

lemma store_variable_ws [simp]:
  "store_variable (with_source x s) n t = lift x (store_variable s n t)"
  by (simp add: store_variable_def lift_push Let_def cong: case_congs)

lemma load_existing_ws [simp]:
  "load_existing (with_source x s) n fn cp v = lift x (load_existing s n fn cp v)"
  by (simp add: load_existing_def lift_push Let_def cong: case_congs)

lemma load_variable_ws [simp]:
  "load_variable (with_source x s) n = lift x (load_variable s n)"
  by (simp add: load_variable_def lift_push Let_def cong: case_congs)

lemma finish_names_ws [simp]:
  "finish_names (with_source x s) pid names = lift x (finish_names s pid names)"
  by (induction names arbitrary: s) (simp_all add: lift_push cong: case_congs)

lemma finish_scope_ws [simp]: "finish_scope (with_source x s) = lift x (finish_scope s)"
  by (simp add: finish_scope_def lift_push cong: case_congs)

lemma load_submodules_ws [simp]:
  "load_submodules (with_source x s) chain base names = lift x (load_submodules s chain base names)"
  by (induction names arbitrary: s base) (simp_all add: lift_push cong: case_congs)

lemma load_module_ws [simp]: "load_module (with_source x s) chain = lift x (load_module s chain)"
  by (simp add: load_module_def lift_push cong: case_congs)

lemma action_ws:
  "action (with_source x s) target t = lift x (action s target t)"
  "action_elts (with_source x s) i elts t = lift x (action_elts s i elts t)"
  by (induction s target t and s i elts t rule: action_action_elts.induct)
     (simp_all add: lift_push cong: case_congs)

lemma walk_targets_ws [simp]:
  "walk_targets (with_source x s) targets typ = lift x (walk_targets s targets typ)"
  by (induction targets arbitrary: s) (simp_all add: action_ws lift_push cong: case_congs)

lemma visit_Name_ws [simp]: "visit_Name (with_source x s) n c = lift x (visit_Name s n c)"
  by (simp add: visit_Name_def lift_push cong: case_congs)

lemma bin_op_ws [simp]: "bin_op (with_source x s) oper l r = lift x (bin_op s oper l r)"
  by (simp add: bin_op_def lift_push cong: case_congs)

lemma aug_assign_ws [simp]:
  "aug_assign (with_source x s) target oper l r = lift x (aug_assign s target oper l r)"
  by (simp add: aug_assign_def lift_push cong: case_congs)

lemma visit_Import_ws [simp]: "visit_Import (with_source x s) names = lift x (visit_Import s names)"
  by (induction s names rule: visit_Import.induct) (simp_all add: lift_push cong: case_congs)

lemma visit_ImportFrom_ws [simp]:
  "visit_ImportFrom (with_source x s) m names = lift x (visit_ImportFrom s m names)"
  by (induction s m names rule: visit_ImportFrom.induct) (simp_all add: lift_push cong: case_congs)

lemma enter_ws [simp]: "enter (with_source x s) node = lift x (enter s node)"
  by (simp add: enter_def lift_push Let_def cong: case_congs)

lemma leave_ws [simp]: "leave (with_source x s) r = lift x (leave s r)"
  by (simp add: leave_def lift_push Let_def cong: case_congs)

lemma visit_context_ws [simp]: "visit_context (with_source x s) c = lift x (visit_context s c)"
  by (simp add: visit_context_def lift_push cong: case_congs)

declare visit.simps [simp del]

lemma visit_ws:
  "visit (with_source x s) node = lift x (visit s node)"
  "super_visit (with_source x s) node = lift x (super_visit s node)"
  "visit_nodes (with_source x s) nodes = lift x (visit_nodes s nodes)"
proof (induction s node and s node and s nodes rule: visit_super_visit_visit_nodes.induct)
  case (1 self node)
  then show ?case by (simp add: visit.simps [of _ node] lift_push cong: case_congs)
qed (simp_all add: lift_push cong: case_congs)

lemma collect_names_ws [simp]:
  "collect_names (with_source x s) names = lift x (collect_names s names)"
  by (induction names) (simp_all add: lift_push Let_def cong: case_congs)

lemma collect_top_level_varaibles_ws [simp]:
  "collect_top_level_varaibles (with_source x s) = lift x (collect_top_level_varaibles s)"
  by (simp add: collect_top_level_varaibles_def lift_push Let_def cong: case_congs)

lemma reset_any:
  "(reset s1)\<lparr>report := r\<rparr> = with_source (source s1) ((reset s2)\<lparr>report := r\<rparr>)"
  by (simp add: reset_def with_source_def)

lemma process_ast_source:
  "process_ast s1 ast_tree = lift (source s1) (process_ast s2 ast_tree)"
  unfolding process_ast_def Let_def reset_any [where ?s1.0 = s1 and ?s2.0 = s2]
  by (simp add: visit_ws lift_push cong: case_congs)

lemma fst_lift: "map_sum fst fst (lift x r) = map_sum fst fst r"
  by (cases r) (auto simp add: lift_def)


text \<open>
  C9: two runs of \<open>process_ast\<close> on the same tree, from any two objects, end the
  same way: both raise the same exception or both return the same report.
\<close>

theorem process_ast_deterministic:
  "map_sum fst fst (process_ast self1 ast_tree) = map_sum fst fst (process_ast self2 ast_tree)"
  by (simp only: process_ast_source [of self1 ast_tree self2] fst_lift)

end
